theory Spec2Isabelle
  imports Main
begin

section \<open>Python values\<close>

text \<open>
  The values that travel between the runner, its endpoints and the progress channel are
  JSON documents. A Python \<open>dict\<close> keeps its keys in insertion order, so an object is an
  association list. Python strings are \<open>string\<close>s, one \<open>char\<close> per character of the
  source string.

  Elapsed times are Python floats rounded to two decimals (\<open>round(op_time, 2)\<close>). The clock
  of the model ticks in hundredths of a millisecond, so such a value is a whole number of
  ticks, held by \<open>JMillis\<close>.
\<close>

datatype json =
    JNull
  | JBool bool
  | JInt int
  | JMillis int
  | JStr string
  | JArr "json list"
  | JObj "(string \<times> json) list"

text \<open>\<open>d.get(k)\<close> and \<open>d.get(k, default)\<close> on a dict.\<close>

definition dict_get :: "(string \<times> json) list \<Rightarrow> string \<Rightarrow> json" where
  "dict_get d k = (case map_of d k of None \<Rightarrow> JNull | Some v \<Rightarrow> v)"

definition dict_get_default :: "(string \<times> json) list \<Rightarrow> string \<Rightarrow> json \<Rightarrow> json" where
  "dict_get_default d k dflt = (case map_of d k of None \<Rightarrow> dflt | Some v \<Rightarrow> v)"

text \<open>\<open>d[k] = v\<close>: an existing key keeps its place, a new key goes last.\<close>

fun dict_set :: "(string \<times> json) list \<Rightarrow> string \<Rightarrow> json \<Rightarrow> (string \<times> json) list" where
  "dict_set [] k v = [(k, v)]"
| "dict_set ((k', v') # d) k v = (if k' = k then (k, v) # d else (k', v') # dict_set d k v)"

text \<open>\<open>k in d\<close>.\<close>

definition has_key :: "json \<Rightarrow> string \<Rightarrow> bool" where
  "has_key j k = (case j of JObj d \<Rightarrow> map_of d k \<noteq> None | _ \<Rightarrow> False)"

text \<open>Reading a field of a value known to be a dict (\<open>r["success"]\<close>, \<open>r.get(k)\<close>).\<close>

definition field :: "json \<Rightarrow> string \<Rightarrow> json" where
  "field j k = (case j of JObj d \<Rightarrow> dict_get d k | _ \<Rightarrow> JNull)"

text \<open>Truth value of a Python object, as \<open>if r["success"]\<close> tests it.\<close>

fun truthy :: "json \<Rightarrow> bool" where
  "truthy JNull = False"
| "truthy (JBool b) = b"
| "truthy (JInt i) = (i \<noteq> 0)"
| "truthy (JMillis i) = (i \<noteq> 0)"
| "truthy (JStr s) = (s \<noteq> [])"
| "truthy (JArr xs) = (xs \<noteq> [])"
| "truthy (JObj d) = (d \<noteq> [])"

text \<open>The name Python prints for the type of a value, in an \<open>AttributeError\<close>.\<close>

fun type_name :: "json \<Rightarrow> string" where
  "type_name JNull = ''NoneType''"
| "type_name (JBool b) = ''bool''"
| "type_name (JInt i) = ''int''"
| "type_name (JMillis i) = ''float''"
| "type_name (JStr s) = ''str''"
| "type_name (JArr xs) = ''list''"
| "type_name (JObj d) = ''dict''"

definition no_attribute :: "json \<Rightarrow> string \<Rightarrow> string" where
  "no_attribute v a = [CHR 0x27] @ type_name v @ [CHR 0x27] @ '' object has no attribute '' @
     [CHR 0x27] @ a @ [CHR 0x27]"

text \<open>\<open>str(n)\<close> of a Python int.\<close>

definition digit_char :: "nat \<Rightarrow> char" where
  "digit_char n = ''0123456789'' ! n"

fun digits :: "nat \<Rightarrow> string" where
  "digits n = (if n < 10 then [digit_char n] else digits (n div 10) @ [digit_char (n mod 10)])"

definition str_int :: "int \<Rightarrow> string" where
  "str_int i = (if i < 0 then CHR ''-'' # digits (nat (- i)) else digits (nat i))"

section \<open>The operation catalog\<close>

text \<open>
  \<open>list_operations\<close> (the \<open>/api/operations\<close> endpoint): the supported operation names by
  group, and the total it reports.
\<close>

definition list_operations :: "(string \<times> string list) list" where
  "list_operations =
    [ (''insert'', [''insert_one'', ''insert_many'', ''insert'', ''save'']),
      (''find'', [''find'', ''find_one'', ''find_one_and_delete'', ''find_one_and_replace'',
                  ''find_one_and_update'', ''find_and_modify'']),
      (''update'', [''update_one'', ''update_many'', ''update'', ''replace_one'']),
      (''delete'', [''delete_one'', ''delete_many'', ''remove'']),
      (''count'', [''count'', ''count_documents'', ''estimated_document_count'']),
      (''aggregation'', [''aggregate'', ''group'', ''map_reduce'', ''inline_map_reduce'']),
      (''index'', [''create_index'', ''create_indexes'', ''ensure_index'', ''drop_index'',
                   ''drop_indexes'', ''reindex'']),
      (''collection'', [''distinct'', ''rename'', ''drop'']),
      (''bulk'', [''bulk_write'']) ]"

definition list_operations_total :: int where
  "list_operations_total = 35"

text \<open>All names \<open>list_operations\<close> lists, and the group a name is listed in.\<close>

definition supported_names :: "string list" where
  "supported_names = concat (map snd list_operations)"

definition group_of :: "string \<Rightarrow> string option" where
  "group_of n = map_option fst (find (\<lambda>g. n \<in> set (snd g)) list_operations)"

text \<open>
  A descriptor is the triple \<open>(op_name, endpoint, payload)\<close> of \<open>test_operations\<close>.
\<close>

type_synonym descriptor = "string \<times> string \<times> json"

definition op_name :: "descriptor \<Rightarrow> string" where
  "op_name d = fst d"

definition endpoint :: "descriptor \<Rightarrow> string" where
  "endpoint d = fst (snd d)"

definition payload :: "descriptor \<Rightarrow> json" where
  "payload d = snd (snd d)"

definition insert_ops :: "descriptor list" where
  "insert_ops =
    [ (''insert_one'', ''/api/insert_one'', JObj [(''document'', JObj
        [(''name'', JStr ''Alice Johnson''), (''age'', JInt 30), (''email'', JStr ''alice@example.com''),
         (''status'', JStr ''active''), (''department'', JStr ''Engineering''), (''salary'', JInt 85000),
         (''tags'', JArr [JStr ''python'', JStr ''mongodb''])])]),
      (''insert_many'', ''/api/insert_many'', JObj [(''documents'', JArr
        [ JObj [(''name'', JStr ''Bob Smith''), (''age'', JInt 25), (''email'', JStr ''bob@example.com''),
                (''status'', JStr ''active''), (''department'', JStr ''Marketing''), (''salary'', JInt 65000)],
          JObj [(''name'', JStr ''Charlie Brown''), (''age'', JInt 35), (''email'', JStr ''charlie@example.com''),
                (''status'', JStr ''inactive''), (''department'', JStr ''Engineering''), (''salary'', JInt 95000)],
          JObj [(''name'', JStr ''Diana Ross''), (''age'', JInt 28), (''email'', JStr ''diana@example.com''),
                (''status'', JStr ''active''), (''department'', JStr ''Sales''), (''salary'', JInt 72000)],
          JObj [(''name'', JStr ''Edward Chen''), (''age'', JInt 42), (''email'', JStr ''edward@example.com''),
                (''status'', JStr ''active''), (''department'', JStr ''Engineering''), (''salary'', JInt 120000)],
          JObj [(''name'', JStr ''Fiona Garcia''), (''age'', JInt 31), (''email'', JStr ''fiona@example.com''),
                (''status'', JStr ''active''), (''department'', JStr ''HR''), (''salary'', JInt 68000)] ])]),
      (''insert'', ''/api/insert'', JObj [(''document'', JObj
        [(''name'', JStr ''George Wilson''), (''age'', JInt 45), (''department'', JStr ''Finance''),
         (''salary'', JInt 110000)])]),
      (''save'', ''/api/save'', JObj [(''document'', JObj
        [(''name'', JStr ''Hannah Lee''), (''age'', JInt 33), (''department'', JStr ''Engineering''),
         (''salary'', JInt 92000)])]) ]"

definition find_ops :: "descriptor list" where
  "find_ops =
    [ (''find'', ''/api/find'', JObj
        [(''filter'', JObj [(''status'', JStr ''active''), (''salary'', JObj [(''$gte'', JInt 70000)])]),
         (''limit'', JInt 50)]),
      (''find_one'', ''/api/find_one'', JObj
        [(''filter'', JObj [(''$or'', JArr
           [JObj [(''age'', JObj [(''$gte'', JInt 40)])],
            JObj [(''salary'', JObj [(''$gte'', JInt 100000)])]])])]),
      (''find_one_and_delete'', ''/api/find_one_and_delete'', JObj
        [(''filter'', JObj [(''status'', JStr ''inactive'')])]),
      (''find_one_and_replace'', ''/api/find_one_and_replace'', JObj
        [(''filter'', JObj [(''email'', JStr ''diana@example.com'')]),
         (''replacement'', JObj
           [(''name'', JStr ''Diana Ross-Smith''), (''age'', JInt 29), (''email'', JStr ''diana@example.com''),
            (''status'', JStr ''active''), (''department'', JStr ''Sales''), (''salary'', JInt 82000)])]),
      (''find_one_and_update'', ''/api/find_one_and_update'', JObj
        [(''filter'', JObj [(''department'', JStr ''Sales'')]),
         (''update'', JObj [(''$set'', JObj [(''last_activity'', JStr ''2024-12-09'')])])]),
      (''find_and_modify'', ''/api/find_and_modify'', JObj
        [(''filter'', JObj [(''salary'', JObj [(''$gte'', JInt 100000)])]),
         (''update'', JObj [(''$set'', JObj [(''high_earner'', JBool True)])])]) ]"

definition update_ops :: "descriptor list" where
  "update_ops =
    [ (''update_one'', ''/api/update_one'', JObj
        [(''filter'', JObj [(''name'', JStr ''Alice Johnson'')]),
         (''update'', JObj [(''$set'', JObj [(''status'', JStr ''senior'')]),
                            (''$inc'', JObj [(''salary'', JInt 15000)])])]),
      (''update_many'', ''/api/update_many'', JObj
        [(''filter'', JObj [(''department'', JStr ''Engineering'')]),
         (''update'', JObj [(''$set'', JObj [(''review_pending'', JBool True)])])]),
      (''update'', ''/api/update'', JObj
        [(''filter'', JObj [(''name'', JStr ''Bob Smith'')]),
         (''update'', JObj [(''$set'', JObj [(''address'', JStr ''San Francisco'')])])]),
      (''replace_one'', ''/api/replace_one'', JObj
        [(''filter'', JObj [(''name'', JStr ''Fiona Garcia'')]),
         (''replacement'', JObj
           [(''name'', JStr ''Fiona Garcia''), (''age'', JInt 32), (''department'', JStr ''HR''),
            (''salary'', JInt 75000), (''promoted'', JBool True)])]) ]"

definition delete_ops :: "descriptor list" where
  "delete_ops =
    [ (''delete_one'', ''/api/delete_one'', JObj [(''filter'', JObj [(''status'', JStr ''temporary'')])]),
      (''delete_many'', ''/api/delete_many'', JObj [(''filter'', JObj [(''department'', JStr ''Intern'')])]),
      (''remove'', ''/api/remove'', JObj [(''filter'', JObj [(''name'', JStr ''NonExistent User'')])]) ]"

definition count_ops :: "descriptor list" where
  "count_ops =
    [ (''count_documents'', ''/api/count_documents'', JObj
        [(''filter'', JObj [(''department'', JStr ''Engineering'')])]),
      (''estimated_document_count'', ''/api/estimated_document_count'', JObj []),
      (''count'', ''/api/count'', JObj [(''filter'', JObj [(''salary'', JObj [(''$gte'', JInt 80000)])])]) ]"

definition aggregation_ops :: "descriptor list" where
  "aggregation_ops =
    [ (''aggregate'', ''/api/aggregate'', JObj [(''pipeline'', JArr
        [ JObj [(''$match'', JObj [(''status'', JStr ''active'')])],
          JObj [(''$group'', JObj [(''_id'', JStr ''$department''),
                                   (''avg_salary'', JObj [(''$avg'', JStr ''$salary'')]),
                                   (''count'', JObj [(''$sum'', JInt 1)])])],
          JObj [(''$sort'', JObj [(''avg_salary'', JInt (- 1))])] ])]),
      (''map_reduce'', ''/api/map_reduce'', JObj
        [(''map'', JStr ''function() { emit(this.department, this.salary); }''),
         (''reduce'', JStr ''function(key, values) { return Array.sum(values); }''),
         (''out'', JStr ''salary_by_dept'')]),
      (''inline_map_reduce'', ''/api/inline_map_reduce'', JObj
        [(''map'', JStr ''function() { emit(this.department, 1); }''),
         (''reduce'', JStr ''function(key, values) { return Array.sum(values); }'')]) ]"

definition index_ops :: "descriptor list" where
  "index_ops =
    [ (''create_index'', ''/api/create_index'', JObj
        [(''keys'', JArr [JArr [JStr ''email'', JInt 1]])]),
      (''create_indexes'', ''/api/create_indexes'', JObj [(''indexes'', JArr
        [ JObj [(''keys'', JArr [JArr [JStr ''department'', JInt 1], JArr [JStr ''salary'', JInt (- 1)]])],
          JObj [(''keys'', JArr [JArr [JStr ''status'', JInt 1]])] ])]),
      (''ensure_index'', ''/api/ensure_index'', JObj [(''keys'', JArr [JArr [JStr ''age'', JInt 1]])]),
      (''reindex'', ''/api/reindex'', JObj []),
      (''drop_index'', ''/api/drop_index'', JObj [(''index_name'', JStr ''email_1'')]),
      (''drop_indexes'', ''/api/drop_indexes'', JObj []) ]"

definition collection_ops :: "descriptor list" where
  "collection_ops =
    [ (''distinct'', ''/api/distinct'', JObj [(''field'', JStr ''department'')]),
      (''rename'', ''/api/rename'', JObj [(''new_name'', JStr ''test_collection_backup'')]) ]"

definition bulk_ops :: "descriptor list" where
  "bulk_ops =
    [ (''bulk_write'', ''/api/bulk_write'', JObj [(''operations'', JArr
        [ JObj [(''insertOne'', JObj [(''document'', JObj
            [(''name'', JStr ''Bulk User 1''), (''age'', JInt 25), (''department'', JStr ''Temp'')])])],
          JObj [(''updateOne'', JObj
            [(''filter'', JObj [(''name'', JStr ''Bulk User 1'')]),
             (''update'', JObj [(''$set'', JObj [(''bulk_tested'', JBool True)])])])],
          JObj [(''deleteOne'', JObj [(''filter'', JObj [(''name'', JStr ''Bulk User 1'')])])] ])]) ]"

definition drop_ops :: "descriptor list" where
  "drop_ops = [ (''drop'', ''/api/drop'', JObj []) ]"

text \<open>
  \<open>test_operations\<close>, the literal of \<open>run_all_operations\<close>, in its ten commented sections
  (the source keeps \<open>group\<close> out: its entry is a comment).
\<close>

definition test_operations :: "descriptor list" where
  "test_operations =
     insert_ops @ find_ops @ update_ops @ delete_ops @ count_ops @ aggregation_ops @
     index_ops @ collection_ops @ bulk_ops @ drop_ops"

section \<open>The database layer (\<open>database.py\<close>)\<close>

text \<open>
  \<open>db_ops\<close> is the process-wide \<open>MongoDBOperations\<close> object. Of its fields the model keeps
  \<open>collection\<close>, the shared handle, as the name of the collection it points at (\<open>None\<close>
  before \<open>connect\<close>, which sets \<open>db\<close> and \<open>collection\<close> together). Everything outside the
  process (the database server, the network, the clock) is the state \<open>outside\<close>.
\<close>

record 'x world =
  collection :: "string option"
  outside :: 'x

text \<open>
  The driver (PyMongo's \<open>Collection\<close> methods) is a collaborator: each call names the
  collection the handle points at, may change the outside, and either raises (\<open>Inl\<close> of
  \<open>str(e)\<close>) or returns what the layer reads of the driver's result.
\<close>

record 'x driver =
  coll_insert_one :: "string \<Rightarrow> json \<Rightarrow> 'x \<Rightarrow> (string + string \<times> bool) \<times> 'x"
  coll_delete_many :: "string \<Rightarrow> json \<Rightarrow> 'x \<Rightarrow> (string + int) \<times> 'x"
  coll_rename :: "string \<Rightarrow> json \<Rightarrow> 'x \<Rightarrow> (string + unit) \<times> 'x"
  coll_drop :: "string \<Rightarrow> 'x \<Rightarrow> (string + unit) \<times> 'x"

definition insert_one :: "'x driver \<Rightarrow> json \<Rightarrow> 'x world \<Rightarrow> (string + json) \<times> 'x world" where
  "insert_one drv document w =
    (case collection w of
       None \<Rightarrow> (Inl (no_attribute JNull ''insert_one''), w)
     | Some c \<Rightarrow>
        (case coll_insert_one drv c document (outside w) of
           (Inl e, x) \<Rightarrow> (Inl e, w\<lparr>outside := x\<rparr>)
         | (Inr (inserted_id, acknowledged), x) \<Rightarrow>
             (Inr (JObj [(''operation'', JStr ''insert_one''),
                         (''inserted_id'', JStr inserted_id),
                         (''acknowledged'', JBool acknowledged)]),
              w\<lparr>outside := x\<rparr>)))"

text \<open>
  \<open>rename\<close>: the driver renames, then the handle is replaced by \<open>self.db[new_name]\<close>, which
  raises a \<open>TypeError\<close> for a name that is not a string.
\<close>

definition rename :: "'x driver \<Rightarrow> json \<Rightarrow> 'x world \<Rightarrow> (string + json) \<times> 'x world" where
  "rename drv new_name w =
    (case collection w of
       None \<Rightarrow> (Inl (no_attribute JNull ''rename''), w)
     | Some c \<Rightarrow>
        (case coll_rename drv c new_name (outside w) of
           (Inl e, x) \<Rightarrow> (Inl e, w\<lparr>outside := x\<rparr>)
         | (Inr u, x) \<Rightarrow>
            (case new_name of
               JStr n \<Rightarrow>
                 (Inr (JObj [(''operation'', JStr ''rename''), (''new_name'', new_name)]),
                  w\<lparr>collection := Some n, outside := x\<rparr>)
             | _ \<Rightarrow> (Inl ''name must be an instance of str'', w\<lparr>outside := x\<rparr>))))"

text \<open>\<open>drop\<close> of \<open>MongoDBOperations\<close> (named apart from the list function).\<close>

definition drop_collection :: "'x driver \<Rightarrow> 'x world \<Rightarrow> (string + json) \<times> 'x world" where
  "drop_collection drv w =
    (case collection w of
       None \<Rightarrow> (Inl (no_attribute JNull ''drop''), w)
     | Some c \<Rightarrow>
        (case coll_drop drv c (outside w) of
           (Inl e, x) \<Rightarrow> (Inl e, w\<lparr>outside := x\<rparr>)
         | (Inr u, x) \<Rightarrow>
             (Inr (JObj [(''operation'', JStr ''drop''), (''status'', JStr ''collection dropped'')]),
              w\<lparr>outside := x\<rparr>)))"

definition clear_collection :: "'x driver \<Rightarrow> 'x world \<Rightarrow> (string + json) \<times> 'x world" where
  "clear_collection drv w =
    (case collection w of
       None \<Rightarrow> (Inl (no_attribute JNull ''delete_many''), w)
     | Some c \<Rightarrow>
        (case coll_delete_many drv c (JObj []) (outside w) of
           (Inl e, x) \<Rightarrow> (Inl e, w\<lparr>outside := x\<rparr>)
         | (Inr deleted_count, x) \<Rightarrow>
             (Inr (JObj [(''operation'', JStr ''clear_collection''),
                         (''deleted_count'', JInt deleted_count)]),
              w\<lparr>outside := x\<rparr>)))"

section \<open>The endpoints (\<open>app.py\<close>)\<close>

text \<open>
  An HTTP response as the runner reads it: its status code and its text, which is empty,
  or not JSON (\<open>response.json()\<close> raises, with the message given), or a JSON document.
\<close>

datatype http_body = NoText | NotJson string | JsonText json

record response =
  status_code :: int
  body :: http_body

text \<open>\<open>jsonify(d)\<close> with status 200, and \<open>jsonify(d), code\<close>.\<close>

definition jsonify :: "(string \<times> json) list \<Rightarrow> int \<Rightarrow> response" where
  "jsonify d code = \<lparr>status_code = code, body = JsonText (JObj d)\<rparr>"

definition success_response :: "json \<Rightarrow> response" where
  "success_response result = jsonify [(''success'', JBool True), (''data'', result)] 200"

definition error_response :: "string \<Rightarrow> response" where
  "error_response e = jsonify [(''success'', JBool False), (''error'', JStr e)] 500"

text \<open>\<open>data.get(k, default)\<close> on the request body, which need not be a dict.\<close>

definition py_get :: "json \<Rightarrow> string \<Rightarrow> json \<Rightarrow> string + json" where
  "py_get data k dflt =
    (case data of JObj d \<Rightarrow> Inr (dict_get_default d k dflt) | _ \<Rightarrow> Inl (no_attribute data ''get''))"

text \<open>
  The endpoints take what \<open>request.get_json()\<close> gave: the parsed body, or \<open>Inl\<close> of the
  message of the exception it raised.
\<close>

definition api_insert_one :: "'x driver \<Rightarrow> string + json \<Rightarrow> 'x world \<Rightarrow> response \<times> 'x world" where
  "api_insert_one drv request w =
    (case request of
       Inl e \<Rightarrow> (error_response e, w)
     | Inr data \<Rightarrow>
        (case py_get data ''document'' (JObj []) of
           Inl e \<Rightarrow> (error_response e, w)
         | Inr document \<Rightarrow>
            (case insert_one drv document w of
               (Inl e, w') \<Rightarrow> (error_response e, w')
             | (Inr result, w') \<Rightarrow> (success_response result, w'))))"

definition api_rename :: "'x driver \<Rightarrow> string + json \<Rightarrow> 'x world \<Rightarrow> response \<times> 'x world" where
  "api_rename drv request w =
    (case request of
       Inl e \<Rightarrow> (error_response e, w)
     | Inr data \<Rightarrow>
        (case py_get data ''new_name'' JNull of
           Inl e \<Rightarrow> (error_response e, w)
         | Inr new_name \<Rightarrow>
            (case rename drv new_name w of
               (Inl e, w') \<Rightarrow> (error_response e, w')
             | (Inr result, w') \<Rightarrow> (success_response result, w'))))"

definition api_drop :: "'x driver \<Rightarrow> 'x world \<Rightarrow> response \<times> 'x world" where
  "api_drop drv w =
    (case drop_collection drv w of
       (Inl e, w') \<Rightarrow> (error_response e, w')
     | (Inr result, w') \<Rightarrow> (success_response result, w'\<lparr>collection := Some ''test_collection''\<rparr>))"

definition api_clear :: "'x driver \<Rightarrow> 'x world \<Rightarrow> response \<times> 'x world" where
  "api_clear drv w =
    (case clear_collection drv w of
       (Inl e, w') \<Rightarrow> (error_response e, w')
     | (Inr result, w') \<Rightarrow> (success_response result, w'))"

section \<open>The sequential runner (\<open>run_all_operations\<close>)\<close>

text \<open>
  What the runner takes from its environment: the HTTP client (\<open>requests.get(url)\<close> and
  \<open>requests.post(url, json=payload)\<close>, which answer or raise and may change the world,
  the shared handle included, since the server is this process), the clock (\<open>time.time()\<close>,
  read in ticks of 0.01 ms), \<open>os.getenv('FLASK_PORT')\<close>, Python's rendering of
  \<open>round(t, 0)\<close> for a float of \<open>t\<close> ticks, and the driver behind \<open>db_ops\<close>.
\<close>

datatype http_method = GET | POST

datatype outcome = Raised string | Responded response

record 'x env =
  http :: "http_method \<Rightarrow> string \<Rightarrow> json option \<Rightarrow> 'x world \<Rightarrow> outcome \<times> 'x world"
  clock :: "'x \<Rightarrow> int"
  flask_port :: "string option"
  str_round0 :: "int \<Rightarrow> string"
  db_driver :: "'x driver"

text \<open>
  The state of one run: the world, the \<open>results\<close> list, the \<open>completed\<close> counter and the
  events given to \<open>socketio.emit('progress', ...)\<close> so far. The progress channel is
  fire-and-forget: an emit appends to the trace and does nothing else.
\<close>

record 'x run =
  world :: "'x world"
  results :: "json list"
  completed :: int
  events :: "json list"

definition emit :: "json \<Rightarrow> 'x run \<Rightarrow> 'x run" where
  "emit e st = st\<lparr>events := events st @ [e]\<rparr>"

text \<open>The glyphs of the messages, as their UTF-8 bytes.\<close>

definition check_mark :: string where
  "check_mark = [CHR 0xE2, CHR 0x9C, CHR 0x93]"

definition cross_mark :: string where
  "cross_mark = [CHR 0xE2, CHR 0x9C, CHR 0x97]"

definition base_url :: "'x env \<Rightarrow> string" where
  "base_url env = ''http://localhost:'' @ (case flask_port env of None \<Rightarrow> ''5000'' | Some p \<Rightarrow> p)"

text \<open>The request of one operation: GET for \<open>estimated_document_count\<close>, POST otherwise.\<close>

definition invoke :: "'x env \<Rightarrow> string \<Rightarrow> string \<Rightarrow> json \<Rightarrow> 'x world \<Rightarrow> outcome \<times> 'x world" where
  "invoke env nm ep pl w =
    (if nm = ''estimated_document_count'' then http env GET (base_url env @ ep) None w
     else http env POST (base_url env @ ep) (Some pl) w)"

text \<open>\<open>result_data = response.json() if response.text else {}\<close>.\<close>

definition response_json :: "response \<Rightarrow> string + json" where
  "response_json r =
    (case body r of NoText \<Rightarrow> Inr (JObj []) | NotJson e \<Rightarrow> Inl e | JsonText j \<Rightarrow> Inr j)"

text \<open>
  The \<open>result_entry\<close> of the \<open>try\<close> branch. Whatever the status, \<open>result_data.get\<close> is
  called once, and raises an \<open>AttributeError\<close> when the body is not a JSON object.
\<close>

definition result_entry_of :: "string \<Rightarrow> int \<Rightarrow> json \<Rightarrow> int \<Rightarrow> string + json" where
  "result_entry_of nm status result_data op_time =
    (case result_data of
       JObj d \<Rightarrow>
         (let entry = [(''operation'', JStr nm),
                       (''success'', JBool (status = 200)),
                       (''result'', if status = 200 then dict_get d ''result'' else JNull),
                       (''execution_time_ms'', JMillis op_time)]
          in Inr (JObj (if status \<noteq> 200
                        then dict_set entry ''error''
                               (dict_get_default d ''error'' (JStr (''HTTP '' @ str_int status)))
                        else entry)))
     | _ \<Rightarrow> Inl (no_attribute result_data ''get''))"

text \<open>The rest of the \<open>try\<close> branch: record the entry and emit \<open>operation_complete\<close>.\<close>

definition record_response :: "'x env \<Rightarrow> int \<Rightarrow> string \<Rightarrow> int \<Rightarrow> int \<Rightarrow> json \<Rightarrow> 'x run \<Rightarrow> json \<times> 'x run" where
  "record_response env total_ops nm status op_time result_entry st =
    (let st1 = st\<lparr>results := results st @ [result_entry], completed := completed st + 1\<rparr>;
         st2 = emit (JObj [(''type'', JStr ''operation_complete''),
                           (''operation'', JStr nm),
                           (''success'', JBool (status = 200)),
                           (''current'', JInt (completed st1)),
                           (''total'', JInt total_ops),
                           (''execution_time_ms'', JMillis op_time),
                           (''message'', JStr ((if status = 200 then check_mark else cross_mark) @
                               '' '' @ nm @ '' completed in '' @ str_round0 env op_time @ ''ms''))]) st1
     in (result_entry, st2))"

text \<open>The \<open>except Exception as e\<close> branch, with \<open>str(e)\<close>.\<close>

definition record_exception :: "'x env \<Rightarrow> int \<Rightarrow> string \<Rightarrow> int \<Rightarrow> string \<Rightarrow> 'x run \<Rightarrow> json \<times> 'x run" where
  "record_exception env total_ops nm op_start e st =
    (let op_time = clock env (outside (world st)) - op_start;
         result_entry = JObj [(''operation'', JStr nm),
                              (''success'', JBool False),
                              (''error'', JStr e),
                              (''execution_time_ms'', JMillis op_time)];
         st1 = st\<lparr>results := results st @ [result_entry], completed := completed st + 1\<rparr>;
         st2 = emit (JObj [(''type'', JStr ''operation_complete''),
                           (''operation'', JStr nm),
                           (''success'', JBool False),
                           (''current'', JInt (completed st1)),
                           (''total'', JInt total_ops),
                           (''execution_time_ms'', JMillis op_time),
                           (''error'', JStr e),
                           (''message'', JStr (cross_mark @ '' '' @ nm @ '' failed: '' @ take 50 e))]) st1
     in (result_entry, st2))"

definition execute_operation ::
  "'x env \<Rightarrow> int \<Rightarrow> int \<Rightarrow> string \<Rightarrow> string \<Rightarrow> json \<Rightarrow> 'x run \<Rightarrow> json \<times> 'x run" where
  "execute_operation env total_ops index nm ep pl st =
    (let op_start = clock env (outside (world st));
         st1 = emit (JObj [(''type'', JStr ''operation_start''),
                           (''operation'', JStr nm),
                           (''current'', JInt index),
                           (''total'', JInt total_ops),
                           (''message'', JStr (''Executing '' @ nm @ ''...''))]) st
     in case invoke env nm ep pl (world st1) of
          (Raised e, w) \<Rightarrow> record_exception env total_ops nm op_start e (st1\<lparr>world := w\<rparr>)
        | (Responded r, w) \<Rightarrow>
           (let st2 = st1\<lparr>world := w\<rparr> in
            case response_json r of
              Inl e \<Rightarrow> record_exception env total_ops nm op_start e st2
            | Inr result_data \<Rightarrow>
               (let op_time = clock env (outside w) - op_start in
                case result_entry_of nm (status_code r) result_data op_time of
                  Inl e \<Rightarrow> record_exception env total_ops nm op_start e st2
                | Inr result_entry \<Rightarrow>
                    record_response env total_ops nm (status_code r) op_time result_entry st2)))"

text \<open>
  The loop \<open>for index, (op_name, endpoint, payload) in enumerate(test_operations, 1)\<close>.
  \<open>execute_operation\<close> handles every exception of the invocation itself, so the
  \<open>try\<close> around the call has nothing left to catch.
\<close>

fun run_loop :: "'x env \<Rightarrow> int \<Rightarrow> int \<Rightarrow> descriptor list \<Rightarrow> 'x run \<Rightarrow> 'x run" where
  "run_loop env total_ops index [] st = st"
| "run_loop env total_ops index (d # rest) st =
     run_loop env total_ops (index + 1) rest
       (snd (execute_operation env total_ops index (op_name d) (endpoint d) (payload d) st))"

text \<open>The summary: \<open>successful = sum(1 for r in results if r["success"])\<close>.\<close>

definition successful_count :: "json list \<Rightarrow> int" where
  "successful_count rs = int (length (filter (\<lambda>r. truthy (field r ''success'')) rs))"

definition summary_of :: "json list \<Rightarrow> int \<Rightarrow> json" where
  "summary_of rs total_time =
    (let successful = successful_count rs;
         failed = int (length rs) - successful
     in JObj [(''total_operations'', JInt (int (length rs))),
              (''successful'', JInt successful),
              (''failed'', JInt failed),
              (''total_time_ms'', JMillis total_time)])"

text \<open>
  The body of \<open>run_all_operations\<close> over a catalog: the clear step (\<open>try ... except: pass\<close>),
  the \<open>start\<close> event, the loop, the summary, the \<open>complete\<close> event and the JSON answer.
\<close>

definition run_catalog :: "'x env \<Rightarrow> descriptor list \<Rightarrow> 'x world \<Rightarrow> json \<times> 'x run" where
  "run_catalog env catalog w =
    (let start_time = clock env (outside w);
         w1 = snd (clear_collection (db_driver env) w);
         total_ops = int (length catalog);
         st0 = \<lparr>world = w1, results = [], completed = 0, events = []\<rparr>;
         st1 = emit (JObj [(''type'', JStr ''start''),
                           (''total'', JInt total_ops),
                           (''message'', JStr (''Starting sequential execution of '' @
                               str_int total_ops @ '' operations...''))]) st0;
         st2 = run_loop env total_ops 1 catalog st1;
         total_time = clock env (outside (world st2)) - start_time;
         summary = summary_of (results st2) total_time;
         st3 = emit (JObj [(''type'', JStr ''complete''),
                           (''summary'', summary),
                           (''message'', JStr (''Completed! '' @ str_int (successful_count (results st2)) @
                               ''/'' @ str_int (int (length (results st2))) @
                               '' operations succeeded in '' @ str_round0 env total_time @ ''ms''))]) st2
     in (JObj [(''success'', JBool True), (''summary'', summary), (''results'', JArr (results st2))],
         st3))"


section \<open>Observations used in the statements\<close>

text \<open>What identifies a progress event: its \<open>type\<close>, \<open>operation\<close> and \<open>current\<close> fields.\<close>

definition event_tag :: "json \<Rightarrow> json \<times> json \<times> json" where
  "event_tag e = (field e ''type'', field e ''operation'', field e ''current'')"

text \<open>The request the loop body makes for a descriptor.\<close>

definition dispatch :: "'x env \<Rightarrow> 'x world \<Rightarrow> descriptor \<Rightarrow> outcome \<times> 'x world" where
  "dispatch env w d = invoke env (op_name d) (endpoint d) (payload d) w"

text \<open>
  \<open>before P Q xs\<close>: in \<open>xs\<close>, every element with \<open>P\<close> stands before every element with \<open>Q\<close>.
\<close>

fun before :: "('a \<Rightarrow> bool) \<Rightarrow> ('a \<Rightarrow> bool) \<Rightarrow> 'a list \<Rightarrow> bool" where
  "before P Q [] = True"
| "before P Q (x # xs) = ((if Q x then list_all (\<lambda>y. \<not> P y) (x # xs) else True) \<and> before P Q xs)"

section \<open>Scenarios\<close>

text \<open>
  Test doubles for the scenarios. The outside is a log of calls: the driver appends the
  collection and the method it was called with, the HTTP client the URL and the verb. The
  driver answers when \<open>ok\<close> holds and raises otherwise; the HTTP client raises at
  \<open>/api/fault\<close>, answers 500 at \<open>/api/reject\<close> and 200 elsewhere. The clock reads the
  length of the log.
\<close>

definition logging_driver :: "bool \<Rightarrow> (string \<times> string) list driver" where
  "logging_driver ok =
    \<lparr>coll_insert_one = (\<lambda>c doc x.
        (if ok then Inr (''507f1f77bcf86cd799439011'', True) else Inl ''connection refused'',
         x @ [(c, ''insert_one'')])),
     coll_delete_many = (\<lambda>c flt x.
        (if ok then Inr 0 else Inl ''connection refused'', x @ [(c, ''delete_many'')])),
     coll_rename = (\<lambda>c n x.
        (if ok then Inr () else Inl ''connection refused'', x @ [(c, ''rename'')])),
     coll_drop = (\<lambda>c x.
        (if ok then Inr () else Inl ''connection refused'', x @ [(c, ''drop'')]))\<rparr>"

definition scenario_env :: "bool \<Rightarrow> (string \<times> string) list env" where
  "scenario_env ok =
    \<lparr>http = (\<lambda>m url data w.
        (if url = ''http://localhost:5000/api/fault''
           then Raised ''HTTPConnectionPool(host=localhost, port=5000): Max retries exceeded with url: /api/fault''
         else if url = ''http://localhost:5000/api/reject''
           then Responded (error_response ''E11000 duplicate key error'')
         else Responded (success_response (JObj [(''operation'', JStr ''noop'')])),
         w\<lparr>outside := outside w @ [(url, case m of GET \<Rightarrow> ''GET'' | POST \<Rightarrow> ''POST'')]\<rparr>)),
     clock = (\<lambda>x. int (length x)),
     flask_port = None,
     str_round0 = (\<lambda>t. str_int (t div 100) @ ''.0''),
     db_driver = logging_driver ok\<rparr>"

definition scenario_world :: "(string \<times> string) list world" where
  "scenario_world = \<lparr>collection = Some ''test_collection'', outside = []\<rparr>"

text \<open>
  A second double serves four of the process's own endpoints over the loop-back address, as
  the runner reaches them, on the logging driver; any other path gets the 404 of
  \<open>not_found\<close>.
\<close>

definition loopback_env :: "bool \<Rightarrow> (string \<times> string) list env" where
  "loopback_env ok = (scenario_env ok)
    \<lparr>http := (\<lambda>m url data w.
       let request = (case data of None \<Rightarrow> Inl ''415 Unsupported Media Type'' | Some d \<Rightarrow> Inr d);
           answer = (\<lambda>(r, w'). (Responded r, w'))
       in if m = POST \<and> url = ''http://localhost:5000/api/insert_one''
            then answer (api_insert_one (logging_driver ok) request w)
          else if m = POST \<and> url = ''http://localhost:5000/api/rename''
            then answer (api_rename (logging_driver ok) request w)
          else if m = POST \<and> url = ''http://localhost:5000/api/drop''
            then answer (api_drop (logging_driver ok) w)
          else if m = POST \<and> url = ''http://localhost:5000/api/clear''
            then answer (api_clear (logging_driver ok) w)
          else (Responded (jsonify [(''error'', JStr ''Not found'')] 404), w))\<rparr>"

definition scenario_start :: "(string \<times> string) list run" where
  "scenario_start = \<lparr>world = scenario_world, results = [], completed = 0, events = []\<rparr>"

section \<open>The catalog's names\<close>

lemma op_names_catalog:
  "map op_name test_operations =
    [''insert_one'', ''insert_many'', ''insert'', ''save'',
     ''find'', ''find_one'', ''find_one_and_delete'', ''find_one_and_replace'',
     ''find_one_and_update'', ''find_and_modify'',
     ''update_one'', ''update_many'', ''update'', ''replace_one'',
     ''delete_one'', ''delete_many'', ''remove'',
     ''count_documents'', ''estimated_document_count'', ''count'',
     ''aggregate'', ''map_reduce'', ''inline_map_reduce'',
     ''create_index'', ''create_indexes'', ''ensure_index'', ''reindex'', ''drop_index'',
     ''drop_indexes'',
     ''distinct'', ''rename'',
     ''bulk_write'',
     ''drop'']"
  by (simp add: test_operations_def insert_ops_def find_ops_def update_ops_def delete_ops_def
      count_ops_def aggregation_ops_def index_ops_def collection_ops_def bulk_ops_def
      drop_ops_def op_name_def)

section \<open>One operation\<close>


lemma record_exception_results:
  "results (snd (record_exception env T nm t0 e st)) = results st @ [fst (record_exception env T nm t0 e st)]"
  by (simp add: record_exception_def emit_def Let_def)

lemma record_response_results:
  "results (snd (record_response env T nm s t r st)) = results st @ [fst (record_response env T nm s t r st)]"
  by (simp add: record_response_def emit_def Let_def)

lemma execute_operation_results:
  "results (snd (execute_operation env T i nm ep pl st)) =
     results st @ [fst (execute_operation env T i nm ep pl st)]"
  by (simp add: execute_operation_def Let_def record_exception_results record_response_results emit_def
      split: prod.splits outcome.splits sum.splits)

lemma record_exception_world:
  "world (snd (record_exception env T nm t0 e st)) = world st"
  by (simp add: record_exception_def emit_def Let_def)

lemma record_response_world:
  "world (snd (record_response env T nm s t r st)) = world st"
  by (simp add: record_response_def emit_def Let_def)

lemma execute_operation_world:
  "world (snd (execute_operation env T i nm ep pl st)) = snd (invoke env nm ep pl (world st))"
  by (simp add: execute_operation_def Let_def record_exception_world record_response_world emit_def
      split: prod.splits outcome.splits sum.splits)

lemma record_exception_completed:
  "completed (snd (record_exception env T nm t0 e st)) = completed st + 1"
  by (simp add: record_exception_def emit_def Let_def)

lemma record_response_completed:
  "completed (snd (record_response env T nm s t r st)) = completed st + 1"
  by (simp add: record_response_def emit_def Let_def)

lemma execute_operation_completed:
  "completed (snd (execute_operation env T i nm ep pl st)) = completed st + 1"
  by (simp add: execute_operation_def Let_def record_exception_completed record_response_completed emit_def
      split: prod.splits outcome.splits sum.splits)

lemma record_exception_tags:
  "map event_tag (events (snd (record_exception env T nm t0 e st))) =
     map event_tag (events st) @ [(JStr ''operation_complete'', JStr nm, JInt (completed st + 1))]"
  by (simp add: record_exception_def emit_def Let_def event_tag_def field_def dict_get_def)

lemma record_response_tags:
  "map event_tag (events (snd (record_response env T nm s t r st))) =
     map event_tag (events st) @ [(JStr ''operation_complete'', JStr nm, JInt (completed st + 1))]"
  by (simp add: record_response_def emit_def Let_def event_tag_def field_def dict_get_def)

lemma execute_operation_tags:
  "map event_tag (events (snd (execute_operation env T i nm ep pl st))) =
     map event_tag (events st) @
       [(JStr ''operation_start'', JStr nm, JInt i),
        (JStr ''operation_complete'', JStr nm, JInt (completed st + 1))]"
  by (simp add: execute_operation_def Let_def record_exception_tags record_response_tags emit_def
      event_tag_def field_def dict_get_def
      split: prod.splits outcome.splits sum.splits)

lemma result_entry_of_operation:
  "result_entry_of nm s d t = Inr r \<Longrightarrow> field r ''operation'' = JStr nm"
  by (auto simp: result_entry_of_def Let_def field_def dict_get_def split: json.splits if_splits)

lemma record_response_fst: "fst (record_response env T nm s t r st) = r"
  by (simp add: record_response_def Let_def)

lemma record_exception_fst:
  "fst (record_exception env T nm t0 e st) =
     JObj [(''operation'', JStr nm), (''success'', JBool False), (''error'', JStr e),
           (''execution_time_ms'', JMillis (clock env (outside (world st)) - t0))]"
  by (simp add: record_exception_def Let_def)

lemma record_exception_operation:
  "field (fst (record_exception env T nm t0 e st)) ''operation'' = JStr nm"
  by (simp add: record_exception_fst field_def dict_get_def)

lemma record_response_operation:
  "result_entry_of nm s d t = Inr r \<Longrightarrow>
   field (fst (record_response env T nm s t r st)) ''operation'' = JStr nm"
  by (simp add: record_response_fst result_entry_of_operation)

lemma execute_operation_operation:
  "field (fst (execute_operation env T i nm ep pl st)) ''operation'' = JStr nm"
  by (auto simp: execute_operation_def Let_def record_exception_operation
      intro: record_response_operation
      split: prod.splits outcome.splits sum.splits)


lemma run_loop_append:
  "run_loop env T i (xs @ ys) st = run_loop env T (i + int (length xs)) ys (run_loop env T i xs st)"
  by (induction xs arbitrary: i st) (simp_all add: add.assoc)

lemma run_loop_operations:
  "map (\<lambda>r. field r ''operation'') (results (run_loop env T i cat st)) =
     map (\<lambda>r. field r ''operation'') (results st) @ map (\<lambda>d. JStr (op_name d)) cat"
  by (induction cat arbitrary: i st)
     (simp_all add: execute_operation_results execute_operation_operation)

lemma run_loop_length:
  "length (results (run_loop env T i cat st)) = length (results st) + length cat"
  by (induction cat arbitrary: i st) (simp_all add: execute_operation_results)

lemma run_loop_world:
  "world (run_loop env T i cat st) = foldl (\<lambda>w d. snd (dispatch env w d)) (world st) cat"
  by (induction cat arbitrary: i st) (simp_all add: execute_operation_world dispatch_def)

lemma run_loop_tags:
  "i = int n \<Longrightarrow> completed st + 1 = int n \<Longrightarrow>
   map event_tag (events (run_loop env T i cat st)) =
     map event_tag (events st) @
     concat (map (\<lambda>(k, d). [(JStr ''operation_start'', JStr (op_name d), JInt (int k)),
                             (JStr ''operation_complete'', JStr (op_name d), JInt (int k))])
                 (enumerate n cat))"
proof (induction cat arbitrary: i n st)
  case Nil
  then show ?case by simp
next
  case (Cons d rest)
  let ?st = "snd (execute_operation env T i (op_name d) (endpoint d) (payload d) st)"
  have "map event_tag (events (run_loop env T (i + 1) rest ?st)) =
     map event_tag (events ?st) @
     concat (map (\<lambda>(k, d). [(JStr ''operation_start'', JStr (op_name d), JInt (int k)),
                             (JStr ''operation_complete'', JStr (op_name d), JInt (int k))])
                 (enumerate (Suc n) rest))"
    using Cons.prems by (intro Cons.IH) (simp_all add: execute_operation_completed)
  then show ?case
    using Cons.prems by (simp add: execute_operation_tags)
qed

lemma run_loop_entries:
  "list_all P (results st) \<Longrightarrow>
   (\<And>i nm ep pl s. P (fst (execute_operation env T i nm ep pl s))) \<Longrightarrow>
   list_all P (results (run_loop env T i cat st))"
  by (induction cat arbitrary: i st) (simp_all add: execute_operation_results)

text \<open>The state the loop of \<open>run_catalog\<close> starts from and the one it ends in.\<close>

lemma run_catalog_results:
  "results (snd (run_catalog env catalog w)) =
     results (run_loop env (int (length catalog)) 1 catalog
       (emit (JObj [(''type'', JStr ''start''),
                    (''total'', JInt (int (length catalog))),
                    (''message'', JStr (''Starting sequential execution of '' @
                        str_int (int (length catalog)) @ '' operations...''))])
          \<lparr>world = snd (clear_collection (db_driver env) w), results = [], completed = 0, events = []\<rparr>))"
  by (simp add: run_catalog_def Let_def emit_def)

lemma run_catalog_operations:
  "map (\<lambda>r. field r ''operation'') (results (snd (run_catalog env catalog w))) =
     map (\<lambda>d. JStr (op_name d)) catalog"
  by (simp add: run_catalog_results run_loop_operations emit_def)

lemma run_catalog_length:
  "length (results (snd (run_catalog env catalog w))) = length catalog"
  by (simp add: run_catalog_results run_loop_length emit_def)

lemma run_catalog_world:
  "world (snd (run_catalog env catalog w)) =
     foldl (\<lambda>w d. snd (dispatch env w d)) (snd (clear_collection (db_driver env) w)) catalog"
  by (simp add: run_catalog_def Let_def run_loop_world emit_def)

lemma run_catalog_tags:
  "map event_tag (events (snd (run_catalog env catalog w))) =
     (JStr ''start'', JNull, JNull) #
     concat (map (\<lambda>(k, d). [(JStr ''operation_start'', JStr (op_name d), JInt (int k)),
                             (JStr ''operation_complete'', JStr (op_name d), JInt (int k))])
                 (enumerate 1 catalog)) @
     [(JStr ''complete'', JNull, JNull)]"
  by (simp add: run_catalog_def Let_def emit_def[of _ "run_loop _ _ _ _ _"]
      run_loop_tags[where n = 1] emit_def event_tag_def field_def dict_get_def)

lemma run_catalog_response:
  "field (fst (run_catalog env catalog w)) ''success'' = JBool True \<and>
   field (fst (run_catalog env catalog w)) ''results'' = JArr (results (snd (run_catalog env catalog w))) \<and>
   field (fst (run_catalog env catalog w)) ''summary'' =
     summary_of (results (snd (run_catalog env catalog w)))
       (clock env (outside (world (snd (run_catalog env catalog w)))) - clock env (outside w))"
  by (simp add: run_catalog_def Let_def emit_def field_def dict_get_def)

section \<open>The run as a whole\<close>

text \<open>
  Claim C1. For every catalog, the run appends exactly one result per descriptor, in catalog
  order (the \<open>operation\<close> fields of the results are the catalog's names, and the answer
  carries that list). The progress trace is \<open>start\<close>, then for each descriptor in turn its
  \<open>operation_start\<close> and its \<open>operation_complete\<close> with the 1-based position, then
  \<open>complete\<close>: the events of operation \<open>i\<close> all come before those of operation
  \<open>i + 1\<close>. The requests are made one at a time, each on the world the previous one
  left.
\<close>

theorem run_catalog_sequential:
  "map (\<lambda>r. field r ''operation'') (results (snd (run_catalog env catalog w))) =
     map (\<lambda>d. JStr (op_name d)) catalog
   \<and> length (results (snd (run_catalog env catalog w))) = length catalog
   \<and> field (fst (run_catalog env catalog w)) ''results'' = JArr (results (snd (run_catalog env catalog w)))
   \<and> map event_tag (events (snd (run_catalog env catalog w))) =
       (JStr ''start'', JNull, JNull) #
       concat (map (\<lambda>(k, d). [(JStr ''operation_start'', JStr (op_name d), JInt (int k)),
                               (JStr ''operation_complete'', JStr (op_name d), JInt (int k))])
                   (enumerate 1 catalog)) @
       [(JStr ''complete'', JNull, JNull)]
   \<and> world (snd (run_catalog env catalog w)) =
       foldl (\<lambda>w d. snd (dispatch env w d)) (snd (clear_collection (db_driver env) w)) catalog"
  using run_catalog_operations[of env catalog w] run_catalog_length[of env catalog w]
    run_catalog_response[of env catalog w] run_catalog_tags[of env catalog w]
    run_catalog_world[of env catalog w]
  by simp

lemma result_entry_of_success:
  "result_entry_of nm s d t = Inr r \<Longrightarrow> field r ''success'' = JBool (s = 200)"
  by (auto simp: result_entry_of_def Let_def field_def dict_get_def split: json.splits if_splits)

lemma result_entry_of_error:
  "result_entry_of nm s d t = Inr r \<Longrightarrow> has_key r ''error'' = (s \<noteq> 200)"
  by (auto simp: result_entry_of_def Let_def has_key_def split: json.splits if_splits)

lemma record_exception_entry:
  "field (fst (record_exception env T nm t0 e st)) ''success'' = JBool False \<and>
   has_key (fst (record_exception env T nm t0 e st)) ''error''"
  by (simp add: record_exception_fst field_def dict_get_def has_key_def)

lemma record_response_entry:
  "result_entry_of nm s d t = Inr r \<Longrightarrow>
   field (fst (record_response env T nm s t r st)) ''success'' = JBool (s = 200) \<and>
   has_key (fst (record_response env T nm s t r st)) ''error'' = (s \<noteq> 200)"
  by (simp add: record_response_fst result_entry_of_success result_entry_of_error)

lemma execute_operation_entry:
  "\<exists>b. field (fst (execute_operation env T i nm ep pl st)) ''success'' = JBool b \<and>
       has_key (fst (execute_operation env T i nm ep pl st)) ''error'' = (\<not> b)"
  by (auto simp: execute_operation_def Let_def record_exception_entry
      dest: record_response_entry
      split: prod.splits outcome.splits sum.splits)

lemma execute_operation_error_iff:
  "has_key (fst (execute_operation env T i nm ep pl st)) ''error'' =
     (field (fst (execute_operation env T i nm ep pl st)) ''success'' = JBool False)"
  using execute_operation_entry[of env T i nm ep pl st] by auto

lemma execute_operation_success_bool:
  "truthy (field (fst (execute_operation env T i nm ep pl st)) ''success'') =
     (field (fst (execute_operation env T i nm ep pl st)) ''success'' = JBool True) \<and>
   (field (fst (execute_operation env T i nm ep pl st)) ''success'' \<noteq> JBool True) =
     (field (fst (execute_operation env T i nm ep pl st)) ''success'' = JBool False)"
  using execute_operation_entry[of env T i nm ep pl st] by auto

lemma execute_operation_failure:
  assumes "(\<exists>e. fst (invoke env nm ep pl (world st)) = Raised e) \<or>
           (\<exists>r. fst (invoke env nm ep pl (world st)) = Responded r \<and> status_code r \<noteq> 200)"
  shows "field (fst (execute_operation env T i nm ep pl st)) ''success'' = JBool False \<and>
         has_key (fst (execute_operation env T i nm ep pl st)) ''error''"
  using assms
  by (auto simp: execute_operation_def Let_def record_exception_entry emit_def
      dest: record_response_entry
      split: prod.splits outcome.splits sum.splits)

lemma run_catalog_entries:
  "(\<And>i nm ep pl s. P (fst (execute_operation env (int (length catalog)) i nm ep pl s))) \<Longrightarrow>
   list_all P (results (snd (run_catalog env catalog w)))"
  by (simp add: run_catalog_results run_loop_entries emit_def)

text \<open>
  Claim C9. Every result entry of a run has an \<open>error\<close> key exactly when its \<open>success\<close>
  field is \<open>False\<close>.
\<close>

theorem error_field_iff_failure:
  "list_all (\<lambda>r. has_key r ''error'' = (field r ''success'' = JBool False))
     (results (snd (run_catalog env catalog w)))"
  by (rule run_catalog_entries) (rule execute_operation_error_iff)

lemma successful_count_entries:
  "list_all (\<lambda>r. truthy (field r ''success'') = (field r ''success'' = JBool True)) rs \<Longrightarrow>
   successful_count rs = int (length (filter (\<lambda>r. field r ''success'' = JBool True) rs))"
  by (induction rs) (simp_all add: successful_count_def)

lemma failed_count_entries:
  "list_all (\<lambda>r. (field r ''success'' \<noteq> JBool True) = (field r ''success'' = JBool False)) rs \<Longrightarrow>
   int (length rs) - int (length (filter (\<lambda>r. field r ''success'' = JBool True) rs)) =
     int (length (filter (\<lambda>r. field r ''success'' = JBool False) rs))"
  by (induction rs) (auto simp: )

text \<open>
  Claim C5. The summary of the answer holds \<open>total_operations = len(results)\<close>,
  \<open>successful\<close> the number of results whose \<open>success\<close> is \<open>True\<close> and \<open>failed\<close> the number
  of the others (whose \<open>success\<close> is \<open>False\<close>), and \<open>successful + failed\<close> is that total.
\<close>

theorem run_summary_invariant:
  "\<exists>successful failed total_time.
     field (fst (run_catalog env catalog w)) ''summary'' =
       JObj [(''total_operations'', JInt (int (length (results (snd (run_catalog env catalog w)))))),
             (''successful'', JInt successful),
             (''failed'', JInt failed),
             (''total_time_ms'', JMillis total_time)]
     \<and> successful + failed = int (length (results (snd (run_catalog env catalog w))))
     \<and> successful = int (length (filter (\<lambda>r. field r ''success'' = JBool True)
                                     (results (snd (run_catalog env catalog w)))))
     \<and> failed = int (length (filter (\<lambda>r. field r ''success'' = JBool False)
                                 (results (snd (run_catalog env catalog w)))))
     \<and> field (fst (run_catalog env catalog w)) ''results'' =
         JArr (results (snd (run_catalog env catalog w)))"
proof -
  let ?rs = "results (snd (run_catalog env catalog w))"
  have a: "list_all (\<lambda>r. truthy (field r ''success'') = (field r ''success'' = JBool True)) ?rs"
    by (rule run_catalog_entries) (simp add: execute_operation_success_bool)
  have b: "list_all (\<lambda>r. (field r ''success'' \<noteq> JBool True) = (field r ''success'' = JBool False)) ?rs"
    by (rule run_catalog_entries) (simp add: execute_operation_success_bool)
  have s: "successful_count ?rs = int (length (filter (\<lambda>r. field r ''success'' = JBool True) ?rs))"
    using a by (rule successful_count_entries)
  have f: "int (length ?rs) - successful_count ?rs =
           int (length (filter (\<lambda>r. field r ''success'' = JBool False) ?rs))"
    using failed_count_entries[OF b] s by simp
  show ?thesis
    using run_catalog_response[of env catalog w] s f
    by (simp add: summary_of_def Let_def)
qed

lemma run_loop_results_prefix:
  "\<exists>rest. results (run_loop env T i cat st) = results st @ rest"
proof (induction cat arbitrary: i st)
  case Nil
  then show ?case by simp
next
  case (Cons d cat)
  let ?s = "snd (execute_operation env T i (op_name d) (endpoint d) (payload d) st)"
  obtain r where "results (run_loop env T (i + 1) cat ?s) = results ?s @ r"
    using Cons.IH by blast
  then show ?case by (simp add: execute_operation_results)
qed

lemma run_catalog_response_success:
  "field (fst (run_catalog env catalog w)) ''success'' = JBool True"
  by (simp add: run_catalog_response)

text \<open>
  Claim C6. Whatever the position \<open>k\<close> of the catalog, when the request of the operation
  there raises, or is answered with a status other than 200, the runner records a failed
  result at position \<open>k\<close> (with its \<open>error\<close>) and goes on: the descriptors after \<open>k\<close> are
  requested in turn, from the world the failed request left, each gets its result, and the
  run returns its answer.
\<close>

theorem failure_does_not_abort_run:
  assumes "(\<exists>e. fst (dispatch env (foldl (\<lambda>w d. snd (dispatch env w d))
                       (snd (clear_collection (db_driver env) w)) xs) d) = Raised e) \<or>
           (\<exists>r. fst (dispatch env (foldl (\<lambda>w d. snd (dispatch env w d))
                       (snd (clear_collection (db_driver env) w)) xs) d) = Responded r \<and>
                status_code r \<noteq> 200)"
  shows "field (results (snd (run_catalog env (xs @ d # ys) w)) ! length xs) ''success'' = JBool False
       \<and> has_key (results (snd (run_catalog env (xs @ d # ys) w)) ! length xs) ''error''
       \<and> length (results (snd (run_catalog env (xs @ d # ys) w))) = length xs + 1 + length ys
       \<and> map (\<lambda>r. field r ''operation'')
            (drop (Suc (length xs)) (results (snd (run_catalog env (xs @ d # ys) w)))) =
          map (\<lambda>d. JStr (op_name d)) ys
       \<and> world (snd (run_catalog env (xs @ d # ys) w)) =
          foldl (\<lambda>w d. snd (dispatch env w d))
            (snd (dispatch env (foldl (\<lambda>w d. snd (dispatch env w d))
                    (snd (clear_collection (db_driver env) w)) xs) d)) ys
       \<and> field (fst (run_catalog env (xs @ d # ys) w)) ''success'' = JBool True"
proof -
  let ?T = "int (length (xs @ d # ys))"
  let ?st0 = "emit (JObj [(''type'', JStr ''start''), (''total'', JInt ?T),
                 (''message'', JStr (''Starting sequential execution of '' @
                        str_int ?T @ '' operations...''))])
          \<lparr>world = snd (clear_collection (db_driver env) w), results = [], completed = 0, events = []\<rparr>"
  let ?sx = "run_loop env ?T 1 xs ?st0"
  let ?ex = "execute_operation env ?T (1 + int (length xs)) (op_name d) (endpoint d) (payload d) ?sx"
  let ?rs = "results (snd (run_catalog env (xs @ d # ys) w))"
  have wx: "world ?sx = foldl (\<lambda>w d. snd (dispatch env w d)) (snd (clear_collection (db_driver env) w)) xs"
    by (simp add: run_loop_world emit_def)
  have fail: "field (fst ?ex) ''success'' = JBool False \<and> has_key (fst ?ex) ''error''"
    by (rule execute_operation_failure) (use assms wx in \<open>simp add: dispatch_def\<close>)
  have rs: "?rs = results (run_loop env ?T (1 + int (length xs) + 1) ys (snd ?ex))"
    by (simp only: run_catalog_results run_loop_append run_loop.simps)
  obtain rest where rest: "?rs = results (snd ?ex) @ rest"
    using run_loop_results_prefix[of env ?T "1 + int (length xs) + 1" ys "snd ?ex"] rs by auto
  have lx: "length (results ?sx) = length xs"
    by (simp add: run_loop_length emit_def)
  have "?rs = results ?sx @ fst ?ex # rest"
    using rest by (simp add: execute_operation_results)
  then have nth: "?rs ! length xs = fst ?ex"
    using lx by (simp add: nth_append)
  have ops: "map (\<lambda>r. field r ''operation'') ?rs = map (\<lambda>d. JStr (op_name d)) (xs @ d # ys)"
    by (rule run_catalog_operations)
  have len: "length ?rs = length xs + 1 + length ys"
    by (simp add: run_catalog_length)
  have "map (\<lambda>r. field r ''operation'') (drop (Suc (length xs)) ?rs) =
        drop (Suc (length xs)) (map (\<lambda>d. JStr (op_name d)) (xs @ d # ys))"
    unfolding ops[symmetric] by (simp add: drop_map)
  then have tail: "map (\<lambda>r. field r ''operation'') (drop (Suc (length xs)) ?rs) =
        map (\<lambda>d. JStr (op_name d)) ys"
    by simp
  have wf: "world (snd (run_catalog env (xs @ d # ys) w)) =
          foldl (\<lambda>w d. snd (dispatch env w d))
            (snd (dispatch env (foldl (\<lambda>w d. snd (dispatch env w d))
                    (snd (clear_collection (db_driver env) w)) xs) d)) ys"
    by (simp add: run_catalog_world)
  show ?thesis
    using fail nth len tail wf run_catalog_response_success[of env "xs @ d # ys" w]
    by simp
qed


lemmas scenario_simps =
  scenario_env_def scenario_world_def logging_driver_def dispatch_def invoke_def base_url_def
  clear_collection_def op_name_def endpoint_def payload_def success_response_def
  error_response_def jsonify_def

theorem failure_does_not_abort_run_witness:
  "fst (dispatch (scenario_env True)
         (foldl (\<lambda>w d. snd (dispatch (scenario_env True) w d))
            (snd (clear_collection (db_driver (scenario_env True)) scenario_world))
            [(''insert_one'', ''/api/insert_one'', JObj [])])
         (''find'', ''/api/fault'', JObj [])) =
     Raised ''HTTPConnectionPool(host=localhost, port=5000): Max retries exceeded with url: /api/fault''
   \<and> field (results (snd (run_catalog (scenario_env True)
           ([(''insert_one'', ''/api/insert_one'', JObj [])] @ (''find'', ''/api/fault'', JObj []) #
            [(''count'', ''/api/count'', JObj [])]) scenario_world)) ! 1) ''success'' = JBool False
   \<and> length (results (snd (run_catalog (scenario_env True)
           ([(''insert_one'', ''/api/insert_one'', JObj [])] @ (''find'', ''/api/fault'', JObj []) #
            [(''count'', ''/api/count'', JObj [])]) scenario_world))) = 3
   \<and> map (\<lambda>r. field r ''operation'') (drop 2 (results (snd (run_catalog (scenario_env True)
           ([(''insert_one'', ''/api/insert_one'', JObj [])] @ (''find'', ''/api/fault'', JObj []) #
            [(''count'', ''/api/count'', JObj [])]) scenario_world)))) = [JStr ''count'']"
proof -
  have h: "fst (dispatch (scenario_env True)
         (foldl (\<lambda>w d. snd (dispatch (scenario_env True) w d))
            (snd (clear_collection (db_driver (scenario_env True)) scenario_world))
            [(''insert_one'', ''/api/insert_one'', JObj [])])
         (''find'', ''/api/fault'', JObj [])) =
     Raised ''HTTPConnectionPool(host=localhost, port=5000): Max retries exceeded with url: /api/fault''"
    by (simp add: scenario_simps)
  show ?thesis
    using h failure_does_not_abort_run[where env = "scenario_env True" and w = scenario_world
        and xs = "[(''insert_one'', ''/api/insert_one'', JObj [])]"
        and d = "(''find'', ''/api/fault'', JObj [])"
        and ys = "[(''count'', ''/api/count'', JObj [])]"]
    by (simp add: op_name_def numeral_2_eq_2)
qed

lemma scenario_success_failure_success:
  "map (\<lambda>r. field r ''success'') (results (snd (run_catalog (scenario_env True)
      [(''insert_one'', ''/api/insert_one'', JObj []), (''find'', ''/api/fault'', JObj []),
       (''count'', ''/api/count'', JObj [])] scenario_world))) = [JBool True, JBool False, JBool True]
   \<and> field (fst (run_catalog (scenario_env True)
      [(''insert_one'', ''/api/insert_one'', JObj []), (''find'', ''/api/fault'', JObj []),
       (''count'', ''/api/count'', JObj [])] scenario_world)) ''summary'' =
     JObj [(''total_operations'', JInt 3), (''successful'', JInt 2), (''failed'', JInt 1),
           (''total_time_ms'', JMillis 4)]"
  by (simp add: run_catalog_def Let_def emit_def execute_operation_def record_response_def
      record_exception_def response_json_def result_entry_of_def summary_of_def
      successful_count_def field_def dict_get_def scenario_simps)

text \<open>What the clear step does to the world: one \<open>delete_many({})\<close> on the handle's collection.\<close>

lemma clear_collection_world:
  "snd (clear_collection drv w) =
     (case collection w of
        None \<Rightarrow> w
      | Some c \<Rightarrow> w\<lparr>outside := snd (coll_delete_many drv c (JObj []) (outside w))\<rparr>)"
  by (simp add: clear_collection_def split: option.splits prod.splits sum.splits)



section \<open>The order and coverage of the catalog\<close>

lemma before_nth:
  "before P Q xs \<Longrightarrow> i < length xs \<Longrightarrow> j < length xs \<Longrightarrow> P (xs ! i) \<Longrightarrow> Q (xs ! j) \<Longrightarrow> i < j"
proof (induction xs arbitrary: i j)
  case Nil
  then show ?case by simp
next
  case (Cons x xs)
  show ?case
  proof (cases j)
    case 0
    with Cons.prems have "list_all (\<lambda>y. \<not> P y) (x # xs)" by simp
    then have "\<not> P ((x # xs) ! i)"
      using Cons.prems(2) by (simp add: list_all_length)
    with Cons.prems show ?thesis by simp
  next
    case (Suc j')
    show ?thesis
    proof (cases i)
      case 0
      with Suc show ?thesis by simp
    next
      case (Suc i')
      with \<open>j = Suc j'\<close> Cons.prems Cons.IH[of i' j'] show ?thesis by simp
    qed
  qed
qed

lemma nth_before:
  "(\<And>i j. i < length xs \<Longrightarrow> j < length xs \<Longrightarrow> P (xs ! i) \<Longrightarrow> Q (xs ! j) \<Longrightarrow> i < j) \<Longrightarrow>
   before P Q xs"
proof (induction xs)
  case Nil
  then show ?case by simp
next
  case (Cons x xs)
  have tl: "before P Q xs"
  proof (rule Cons.IH)
    fix i j
    assume "i < length xs" "j < length xs" "P (xs ! i)" "Q (xs ! j)"
    then have "Suc i < Suc j"
      using Cons.prems[of "Suc i" "Suc j"] by simp
    then show "i < j" by simp
  qed
  have hd: "list_all (\<lambda>y. \<not> P y) (x # xs)" if "Q x"
    unfolding list_all_length
  proof (intro allI impI)
    fix i assume i: "i < length (x # xs)"
    show "\<not> P ((x # xs) ! i)"
    proof
      assume "P ((x # xs) ! i)"
      then have "i < 0" using Cons.prems[of i 0] i that by simp
      then show False by simp
    qed
  qed
  show ?case using tl hd by simp
qed

lemma group_of_values:
  "group_of ''insert_one'' = Some ''insert''"
  "group_of ''insert_many'' = Some ''insert''"
  "group_of ''insert'' = Some ''insert''"
  "group_of ''save'' = Some ''insert''"
  "group_of ''find'' = Some ''find''"
  "group_of ''find_one'' = Some ''find''"
  "group_of ''find_one_and_delete'' = Some ''find''"
  "group_of ''find_one_and_replace'' = Some ''find''"
  "group_of ''find_one_and_update'' = Some ''find''"
  "group_of ''find_and_modify'' = Some ''find''"
  "group_of ''update_one'' = Some ''update''"
  "group_of ''update_many'' = Some ''update''"
  "group_of ''update'' = Some ''update''"
  "group_of ''replace_one'' = Some ''update''"
  "group_of ''delete_one'' = Some ''delete''"
  "group_of ''delete_many'' = Some ''delete''"
  "group_of ''remove'' = Some ''delete''"
  "group_of ''count'' = Some ''count''"
  "group_of ''count_documents'' = Some ''count''"
  "group_of ''estimated_document_count'' = Some ''count''"
  "group_of ''aggregate'' = Some ''aggregation''"
  "group_of ''group'' = Some ''aggregation''"
  "group_of ''map_reduce'' = Some ''aggregation''"
  "group_of ''inline_map_reduce'' = Some ''aggregation''"
  "group_of ''create_index'' = Some ''index''"
  "group_of ''create_indexes'' = Some ''index''"
  "group_of ''ensure_index'' = Some ''index''"
  "group_of ''drop_index'' = Some ''index''"
  "group_of ''drop_indexes'' = Some ''index''"
  "group_of ''reindex'' = Some ''index''"
  "group_of ''distinct'' = Some ''collection''"
  "group_of ''rename'' = Some ''collection''"
  "group_of ''drop'' = Some ''collection''"
  "group_of ''bulk_write'' = Some ''bulk''"
  by (simp_all add: group_of_def list_operations_def)

lemma supported_names_list:
  "supported_names =
    [''insert_one'', ''insert_many'', ''insert'', ''save'',
     ''find'', ''find_one'', ''find_one_and_delete'', ''find_one_and_replace'',
     ''find_one_and_update'', ''find_and_modify'',
     ''update_one'', ''update_many'', ''update'', ''replace_one'',
     ''delete_one'', ''delete_many'', ''remove'',
     ''count'', ''count_documents'', ''estimated_document_count'',
     ''aggregate'', ''group'', ''map_reduce'', ''inline_map_reduce'',
     ''create_index'', ''create_indexes'', ''ensure_index'', ''drop_index'',
     ''drop_indexes'', ''reindex'',
     ''distinct'', ''rename'', ''drop'',
     ''bulk_write'']"
  by (simp add: supported_names_def list_operations_def)

text \<open>
  Claim C4, as the code has it. The names of the catalog are pairwise distinct, and they are
  the names \<open>list_operations\<close> lists without \<open>group\<close>: 33 entries for 34 listed names.
\<close>

theorem catalog_covers_all_but_group:
  "length test_operations = 33
   \<and> distinct (map op_name test_operations)
   \<and> length supported_names = 34
   \<and> distinct supported_names
   \<and> set (map op_name test_operations) = set supported_names - {''group''}"
proof -
  have l: "length (map op_name test_operations) = 33"
    unfolding op_names_catalog by simp
  have d: "distinct (map op_name test_operations)"
    unfolding op_names_catalog by simp
  have s: "length supported_names = 34 \<and> distinct supported_names"
    unfolding supported_names_list by simp
  have r: "set (remove1 ''group'' supported_names) = set supported_names - {''group''}"
    using s by (simp add: set_remove1_eq)
  have a: "list_all (\<lambda>n. n \<in> set (remove1 ''group'' supported_names)) (map op_name test_operations)"
    unfolding op_names_catalog supported_names_list by simp
  have b: "list_all (\<lambda>n. n \<in> set (map op_name test_operations)) (remove1 ''group'' supported_names)"
    unfolding op_names_catalog supported_names_list by simp
  have "set (map op_name test_operations) = set (remove1 ''group'' supported_names)"
    using a b unfolding list_all_iff by blast
  then have e: "set (map op_name test_operations) = set supported_names - {''group''}"
    using r by simp
  show ?thesis using l d s e by simp
qed

text \<open>
  Claim C4 as stated fails: the catalog has 33 entries, not 35, and the supported operation
  \<open>group\<close> has no entry.
\<close>

theorem catalog_misses_group:
  "length test_operations \<noteq> 35
   \<and> ''group'' \<in> set supported_names
   \<and> ''group'' \<notin> set (map op_name test_operations)
   \<and> list_operations_total = 35"
proof -
  have l: "length (map op_name test_operations) = 33"
    unfolding op_names_catalog by simp
  have g: "''group'' \<in> set supported_names"
    unfolding supported_names_list by simp
  have n: "''group'' \<notin> set (map op_name test_operations)"
    unfolding op_names_catalog by simp
  show ?thesis using l g n by (simp add: list_operations_total_def)
qed


lemma catalog_from_index_operations:
  "dropWhile (\<lambda>n. group_of n \<noteq> Some ''index'') (map op_name test_operations) =
     [''create_index'', ''create_indexes'', ''ensure_index'', ''reindex'', ''drop_index'',
      ''drop_indexes'', ''distinct'', ''rename'', ''bulk_write'', ''drop'']"
  unfolding op_names_catalog by (simp add: group_of_values)

text \<open>
  The orderings the catalog does keep: every operation of the insert, find, update, delete,
  count and aggregation groups stands before every index operation, \<open>rename\<close> and \<open>drop\<close>;
  the index creations stand before the index removals; every index operation stands before
  \<open>rename\<close>; \<open>rename\<close> stands before \<open>drop\<close>, which is last.
\<close>

lemma structural_order_of_catalog:
  "before (\<lambda>n. group_of n \<in> set [Some ''insert'', Some ''find'', Some ''update'', Some ''delete'',
                                    Some ''count'', Some ''aggregation''])
          (\<lambda>n. group_of n = Some ''index'' \<or> n = ''rename'' \<or> n = ''drop'')
          (map op_name test_operations)
   \<and> before (\<lambda>n. n \<in> set [''create_index'', ''create_indexes'', ''ensure_index''])
            (\<lambda>n. n \<in> set [''drop_index'', ''drop_indexes''])
            (map op_name test_operations)
   \<and> before (\<lambda>n. group_of n = Some ''index'') (\<lambda>n. n = ''rename'') (map op_name test_operations)
   \<and> before (\<lambda>n. n = ''rename'') (\<lambda>n. n = ''drop'') (map op_name test_operations)
   \<and> last (map op_name test_operations) = ''drop''"
proof -
  have 1: "before (\<lambda>n. group_of n \<in> set [Some ''insert'', Some ''find'', Some ''update'', Some ''delete'',
                                    Some ''count'', Some ''aggregation''])
          (\<lambda>n. group_of n = Some ''index'' \<or> n = ''rename'' \<or> n = ''drop'')
          (map op_name test_operations)"
    unfolding op_names_catalog by (simp add: group_of_values)
  have 2: "before (\<lambda>n. n \<in> set [''create_index'', ''create_indexes'', ''ensure_index''])
            (\<lambda>n. n \<in> set [''drop_index'', ''drop_indexes''])
            (map op_name test_operations)"
    unfolding op_names_catalog by simp
  have 3: "before (\<lambda>n. group_of n = Some ''index'') (\<lambda>n. n = ''rename'') (map op_name test_operations)"
    unfolding op_names_catalog by (simp add: group_of_values)
  have 4: "before (\<lambda>n. n = ''rename'') (\<lambda>n. n = ''drop'') (map op_name test_operations)"
    unfolding op_names_catalog by simp
  have 5: "last (map op_name test_operations) = ''drop''"
    unfolding op_names_catalog by simp
  show ?thesis using 1 2 3 4 5 by blast
qed

text \<open>
  Claim C3 at the catalog. The source's comments have the collection section last and
  \<open>rename\<close> at the end, and the claim has \<open>rename\<close> followed by \<open>drop\<close> alone. The
  literal has 33 entries and ends \<open>rename\<close>, \<open>bulk_write\<close>, \<open>drop\<close> (positions 30, 31 and 32,
  counting from 0): \<open>bulk_write\<close> runs after \<open>rename\<close>.
\<close>

theorem rename_is_followed_by_bulk_write:
  "length (map op_name test_operations) = 33
   \<and> map op_name test_operations ! 30 = ''rename''
   \<and> map op_name test_operations ! 31 = ''bulk_write''
   \<and> map op_name test_operations ! 32 = ''drop''
   \<and> dropWhile (\<lambda>n. n \<noteq> ''rename'') (map op_name test_operations) =
        [''rename'', ''bulk_write'', ''drop'']"
  unfolding op_names_catalog by simp

text \<open>So not every operation after \<open>rename\<close> is \<open>drop\<close>.\<close>

lemma bulk_write_after_rename:
  "\<not> (\<forall>i j. i < j \<and> j < length (map op_name test_operations) \<and>
             map op_name test_operations ! i = ''rename'' \<longrightarrow>
             map op_name test_operations ! j = ''drop'')"
proof
  assume a: "\<forall>i j. i < j \<and> j < length (map op_name test_operations) \<and>
             map op_name test_operations ! i = ''rename'' \<longrightarrow>
             map op_name test_operations ! j = ''drop''"
  have r: "map op_name test_operations ! 30 = ''rename''"
    unfolding op_names_catalog by simp
  have b: "map op_name test_operations ! 31 = ''bulk_write''"
    unfolding op_names_catalog by simp
  have l: "31 < length (map op_name test_operations)"
    unfolding op_names_catalog by simp
  have "(30::nat) < 31 \<and> 31 < length (map op_name test_operations) \<and>
        map op_name test_operations ! 30 = ''rename''"
    using r l by simp
  with a have "map op_name test_operations ! 31 = ''drop''" by blast
  with b show False by simp
qed

section \<open>The payload of a successful operation\<close>

lemma result_entry_of_success_response:
  "result_entry_of nm 200 (JObj [(''success'', JBool True), (''data'', data)]) t =
     Inr (JObj [(''operation'', JStr nm), (''success'', JBool True), (''result'', JNull),
                (''execution_time_ms'', JMillis t)])"
  by (simp add: result_entry_of_def Let_def dict_get_def)

lemma api_insert_one_success:
  "collection w = Some c \<Longrightarrow>
   coll_insert_one drv c (dict_get_default d ''document'' (JObj [])) (outside w) = (Inr (oid, ack), x) \<Longrightarrow>
   api_insert_one drv (Inr (JObj d)) w =
     (success_response (JObj [(''operation'', JStr ''insert_one''), (''inserted_id'', JStr oid),
                             (''acknowledged'', JBool ack)]),
      w\<lparr>outside := x\<rparr>)"
  by (simp add: api_insert_one_def py_get_def insert_one_def)

text \<open>
  Claim C2 at its failing input. The first descriptor of the catalog, \<open>insert_one\<close>, is
  served by \<open>api_insert_one\<close> on a driver that inserts the document: the endpoint answers
  200 with the payload under \<open>data\<close>, and the runner's entry has \<open>success = True\<close> but
  \<open>result = None\<close>, since it reads the key \<open>result\<close>. The same holds for every payload an
  endpoint puts in its success answer.
\<close>

theorem insert_one_payload_not_carried:
  "fst (api_insert_one (logging_driver True) (Inr (payload (hd test_operations))) scenario_world) =
     success_response (JObj [(''operation'', JStr ''insert_one''),
                             (''inserted_id'', JStr ''507f1f77bcf86cd799439011''),
                             (''acknowledged'', JBool True)])
   \<and> op_name (hd test_operations) = ''insert_one''
   \<and> field (fst (execute_operation (loopback_env True) 33 1 (op_name (hd test_operations))
          (endpoint (hd test_operations)) (payload (hd test_operations)) scenario_start))
        ''success'' = JBool True
   \<and> field (fst (execute_operation (loopback_env True) 33 1 (op_name (hd test_operations))
          (endpoint (hd test_operations)) (payload (hd test_operations)) scenario_start))
        ''result'' = JNull
   \<and> result_entry_of nm 200 (JObj [(''success'', JBool True), (''data'', data)]) t =
        Inr (JObj [(''operation'', JStr nm), (''success'', JBool True), (''result'', JNull),
                   (''execution_time_ms'', JMillis t)])"
proof -
  have hd: "hd test_operations = (''insert_one'', ''/api/insert_one'', JObj [(''document'', JObj
        [(''name'', JStr ''Alice Johnson''), (''age'', JInt 30), (''email'', JStr ''alice@example.com''),
         (''status'', JStr ''active''), (''department'', JStr ''Engineering''), (''salary'', JInt 85000),
         (''tags'', JArr [JStr ''python'', JStr ''mongodb''])])])"
    by (simp add: test_operations_def insert_ops_def)
  have a: "api_insert_one (logging_driver True) (Inr (payload (hd test_operations))) scenario_world =
     (success_response (JObj [(''operation'', JStr ''insert_one''),
                             (''inserted_id'', JStr ''507f1f77bcf86cd799439011''),
                             (''acknowledged'', JBool True)]),
      scenario_world\<lparr>outside := [(''test_collection'', ''insert_one'')]\<rparr>)"
    unfolding hd payload_def
    by (simp add: api_insert_one_def py_get_def insert_one_def dict_get_default_def
        logging_driver_def scenario_world_def)
  have i: "invoke (loopback_env True) ''insert_one'' ''/api/insert_one'' (payload (hd test_operations))
             scenario_world =
           (Responded (success_response (JObj [(''operation'', JStr ''insert_one''),
                             (''inserted_id'', JStr ''507f1f77bcf86cd799439011''),
                             (''acknowledged'', JBool True)])),
            scenario_world\<lparr>outside := [(''test_collection'', ''insert_one'')]\<rparr>)"
    using a by (simp add: invoke_def loopback_env_def scenario_env_def base_url_def Let_def)
  have e: "fst (execute_operation (loopback_env True) 33 1 ''insert_one'' ''/api/insert_one''
              (payload (hd test_operations)) scenario_start) =
           JObj [(''operation'', JStr ''insert_one''), (''success'', JBool True), (''result'', JNull),
                 (''execution_time_ms'', JMillis 1)]"
    using i
    by (simp add: execute_operation_def Let_def emit_def scenario_start_def response_json_def
        success_response_def jsonify_def result_entry_of_success_response record_response_fst
        loopback_env_def scenario_env_def scenario_world_def)
  have n: "op_name (hd test_operations) = ''insert_one''" "endpoint (hd test_operations) = ''/api/insert_one''"
    unfolding hd by (simp_all add: op_name_def endpoint_def)
  show ?thesis
    unfolding n using a e
    by (simp add: result_entry_of_success_response field_def dict_get_def)
qed

section \<open>The shared collection handle\<close>

text \<open>What each database method does to the handle.\<close>

lemma rename_success:
  "fst (rename drv new_name w) = Inr r \<Longrightarrow>
   \<exists>n. new_name = JStr n \<and> collection (snd (rename drv new_name w)) = Some n"
  by (auto simp: rename_def split: option.splits prod.splits sum.splits json.splits)

lemma rename_failure:
  "fst (rename drv new_name w) = Inl e \<Longrightarrow> collection (snd (rename drv new_name w)) = collection w"
  by (auto simp: rename_def split: option.splits prod.splits sum.splits json.splits)

lemma api_rename_success:
  "status_code (fst (api_rename drv request w)) = 200 \<Longrightarrow>
   \<exists>n. collection (snd (api_rename drv request w)) = Some n \<and>
       (\<exists>d. request = Inr (JObj d) \<and> map_of d ''new_name'' = Some (JStr n))"
  by (auto simp: api_rename_def rename_def py_get_def dict_get_default_def error_response_def
      success_response_def jsonify_def
      split: option.splits prod.splits sum.splits json.splits)

lemma api_drop_success:
  "status_code (fst (api_drop drv w)) = 200 \<Longrightarrow>
   collection (snd (api_drop drv w)) = Some ''test_collection''"
  by (auto simp: api_drop_def error_response_def success_response_def jsonify_def
      split: prod.splits sum.splits)

lemma api_drop_failure:
  "status_code (fst (api_drop drv w)) \<noteq> 200 \<Longrightarrow>
   collection (snd (api_drop drv w)) = collection w"
  by (auto simp: api_drop_def drop_collection_def error_response_def success_response_def jsonify_def
      split: prod.splits sum.splits option.splits)

lemma insert_one_world:
  "collection w = Some n \<Longrightarrow>
   snd (insert_one drv doc w) = w\<lparr>outside := snd (coll_insert_one drv n doc (outside w))\<rparr>"
  by (simp add: insert_one_def split: prod.splits sum.splits)

lemma drop_collection_world:
  "collection w = Some n \<Longrightarrow>
   snd (drop_collection drv w) = w\<lparr>outside := snd (coll_drop drv n (outside w))\<rparr>"
  by (simp add: drop_collection_def split: prod.splits sum.splits)

text \<open>
  Claim C10. When \<open>rename\<close> returns, the new name is a string and the shared handle points
  at it, so the database methods that follow call the driver on the renamed collection.
  When the drop endpoint answers 200, the handle points at \<open>test_collection\<close>, whatever it
  pointed at before.
\<close>

theorem rename_and_drop_move_the_handle:
  "(fst (rename drv new_name w) = Inr r \<longrightarrow>
      (\<exists>n. new_name = JStr n
          \<and> collection (snd (rename drv new_name w)) = Some n
          \<and> snd (insert_one drv doc (snd (rename drv new_name w))) =
              (snd (rename drv new_name w))
                \<lparr>outside := snd (coll_insert_one drv n doc (outside (snd (rename drv new_name w))))\<rparr>
          \<and> snd (clear_collection drv (snd (rename drv new_name w))) =
              (snd (rename drv new_name w))
                \<lparr>outside := snd (coll_delete_many drv n (JObj []) (outside (snd (rename drv new_name w))))\<rparr>
          \<and> snd (drop_collection drv (snd (rename drv new_name w))) =
              (snd (rename drv new_name w))
                \<lparr>outside := snd (coll_drop drv n (outside (snd (rename drv new_name w))))\<rparr>))
   \<and> (status_code (fst (api_drop drv w')) = 200 \<longrightarrow>
        collection (snd (api_drop drv w')) = Some ''test_collection'')"
proof (intro conjI impI)
  assume a: "fst (rename drv new_name w) = Inr r"
  then obtain n where n: "new_name = JStr n" "collection (snd (rename drv new_name w)) = Some n"
    using rename_success by blast
  show "\<exists>n. new_name = JStr n
          \<and> collection (snd (rename drv new_name w)) = Some n
          \<and> snd (insert_one drv doc (snd (rename drv new_name w))) =
              (snd (rename drv new_name w))
                \<lparr>outside := snd (coll_insert_one drv n doc (outside (snd (rename drv new_name w))))\<rparr>
          \<and> snd (clear_collection drv (snd (rename drv new_name w))) =
              (snd (rename drv new_name w))
                \<lparr>outside := snd (coll_delete_many drv n (JObj []) (outside (snd (rename drv new_name w))))\<rparr>
          \<and> snd (drop_collection drv (snd (rename drv new_name w))) =
              (snd (rename drv new_name w))
                \<lparr>outside := snd (coll_drop drv n (outside (snd (rename drv new_name w))))\<rparr>"
    using n insert_one_world[OF n(2)] drop_collection_world[OF n(2)]
      clear_collection_world[of drv "snd (rename drv new_name w)"]
    by simp
next
  assume "status_code (fst (api_drop drv w')) = 200"
  then show "collection (snd (api_drop drv w')) = Some ''test_collection''"
    by (rule api_drop_success)
qed

theorem rename_and_drop_move_the_handle_witness:
  "fst (rename (logging_driver True) (JStr ''test_collection_backup'') scenario_world) =
     Inr (JObj [(''operation'', JStr ''rename''), (''new_name'', JStr ''test_collection_backup'')])
   \<and> collection (snd (rename (logging_driver True) (JStr ''test_collection_backup'') scenario_world)) =
       Some ''test_collection_backup''
   \<and> status_code (fst (api_drop (logging_driver True)
         (snd (rename (logging_driver True) (JStr ''test_collection_backup'') scenario_world)))) = 200
   \<and> collection (snd (api_drop (logging_driver True)
         (snd (rename (logging_driver True) (JStr ''test_collection_backup'') scenario_world)))) =
       Some ''test_collection''
   \<and> outside (snd (api_drop (logging_driver True)
         (snd (rename (logging_driver True) (JStr ''test_collection_backup'') scenario_world)))) =
       [(''test_collection'', ''rename''), (''test_collection_backup'', ''drop'')]"
proof -
  have r: "rename (logging_driver True) (JStr ''test_collection_backup'') scenario_world =
     (Inr (JObj [(''operation'', JStr ''rename''), (''new_name'', JStr ''test_collection_backup'')]),
      \<lparr>collection = Some ''test_collection_backup'', outside = [(''test_collection'', ''rename'')]\<rparr>)"
    by (simp add: rename_def logging_driver_def scenario_world_def)
  have d: "status_code (fst (api_drop (logging_driver True)
         (snd (rename (logging_driver True) (JStr ''test_collection_backup'') scenario_world)))) = 200"
    unfolding r
    by (simp add: api_drop_def drop_collection_def logging_driver_def success_response_def jsonify_def)
  have o: "outside (snd (api_drop (logging_driver True)
         (snd (rename (logging_driver True) (JStr ''test_collection_backup'') scenario_world)))) =
       [(''test_collection'', ''rename''), (''test_collection_backup'', ''drop'')]"
    unfolding r
    by (simp add: api_drop_def drop_collection_def logging_driver_def success_response_def jsonify_def)
  have f: "fst (rename (logging_driver True) (JStr ''test_collection_backup'') scenario_world) =
     Inr (JObj [(''operation'', JStr ''rename''), (''new_name'', JStr ''test_collection_backup'')])"
    unfolding r by simp
  show ?thesis
    using f d o
      rename_and_drop_move_the_handle[where drv = "logging_driver True"
        and new_name = "JStr ''test_collection_backup''" and w = scenario_world
        and r = "JObj [(''operation'', JStr ''rename''), (''new_name'', JStr ''test_collection_backup'')]"
        and w' = "snd (rename (logging_driver True) (JStr ''test_collection_backup'') scenario_world)"]
    by simp
qed

section \<open>The \<open>operation_complete\<close> event\<close>

lemma record_exception_events:
  "events (snd (record_exception env T nm t0 e st)) =
     events st @
     [JObj [(''type'', JStr ''operation_complete''),
            (''operation'', JStr nm),
            (''success'', JBool False),
            (''current'', JInt (completed st + 1)),
            (''total'', JInt T),
            (''execution_time_ms'', JMillis (clock env (outside (world st)) - t0)),
            (''error'', JStr e),
            (''message'', JStr (cross_mark @ '' '' @ nm @ '' failed: '' @ take 50 e))]]"
  by (simp add: record_exception_def Let_def emit_def)

lemma record_response_events:
  "events (snd (record_response env T nm s t r st)) =
     events st @
     [JObj [(''type'', JStr ''operation_complete''),
            (''operation'', JStr nm),
            (''success'', JBool (s = 200)),
            (''current'', JInt (completed st + 1)),
            (''total'', JInt T),
            (''execution_time_ms'', JMillis t),
            (''message'', JStr ((if s = 200 then check_mark else cross_mark) @
                               '' '' @ nm @ '' completed in '' @ str_round0 env t @ ''ms''))]]"
  by (simp add: record_response_def Let_def emit_def)

lemma result_entry_of_time:
  "result_entry_of nm s d t = Inr r \<Longrightarrow> field r ''execution_time_ms'' = JMillis t"
  by (auto simp: result_entry_of_def Let_def field_def dict_get_def split: json.splits if_splits)

lemma result_entry_of_error_value:
  "s \<noteq> 200 \<Longrightarrow>
   result_entry_of nm s (JObj d) t = Inr r \<Longrightarrow>
   field r ''error'' = dict_get_default d ''error'' (JStr (''HTTP '' @ str_int s))"
  by (auto simp: result_entry_of_def Let_def field_def dict_get_def)

text \<open>What \<open>operation_complete\<close> always carries, with the entry just appended.\<close>

lemma record_exception_complete:
  "\<exists>finished.
     events (snd (record_exception env T nm t0 e st)) = events st @ [finished]
     \<and> field finished ''type'' = JStr ''operation_complete''
     \<and> field finished ''operation'' = JStr nm
     \<and> field finished ''success'' = field (fst (record_exception env T nm t0 e st)) ''success''
     \<and> field finished ''execution_time_ms'' =
         field (fst (record_exception env T nm t0 e st)) ''execution_time_ms''"
  by (simp add: record_exception_events record_exception_fst field_def dict_get_def)

lemma record_response_complete:
  "result_entry_of nm s d t = Inr r \<Longrightarrow>
   \<exists>finished.
     events (snd (record_response env T nm s t r st)) = events st @ [finished]
     \<and> field finished ''type'' = JStr ''operation_complete''
     \<and> field finished ''operation'' = JStr nm
     \<and> field finished ''success'' = field (fst (record_response env T nm s t r st)) ''success''
     \<and> field finished ''execution_time_ms'' =
         field (fst (record_response env T nm s t r st)) ''execution_time_ms''"
  by (simp add: record_response_events record_response_fst result_entry_of_success
      result_entry_of_time)
     (simp add: field_def dict_get_def)

lemma execute_operation_cases:
  obtains (exception) e w where
      "execute_operation env T i nm ep pl st =
         record_exception env T nm (clock env (outside (world st))) e
           ((emit (JObj [(''type'', JStr ''operation_start''), (''operation'', JStr nm),
                         (''current'', JInt i), (''total'', JInt T),
                         (''message'', JStr (''Executing '' @ nm @ ''...''))]) st)\<lparr>world := w\<rparr>)"
  | (response) s d t r w where
      "result_entry_of nm s d t = Inr r"
      "execute_operation env T i nm ep pl st =
         record_response env T nm s t r
           ((emit (JObj [(''type'', JStr ''operation_start''), (''operation'', JStr nm),
                         (''current'', JInt i), (''total'', JInt T),
                         (''message'', JStr (''Executing '' @ nm @ ''...''))]) st)\<lparr>world := w\<rparr>)"
proof -
  let ?start = "JObj [(''type'', JStr ''operation_start''), (''operation'', JStr nm),
                      (''current'', JInt i), (''total'', JInt T),
                      (''message'', JStr (''Executing '' @ nm @ ''...''))]"
  obtain out w where inv: "invoke env nm ep pl (world (emit ?start st)) = (out, w)"
    by (cases "invoke env nm ep pl (world (emit ?start st))") blast
  show thesis
  proof (cases out)
    case (Raised e)
    with inv show thesis
      by (intro exception[of e w]) (simp add: execute_operation_def Let_def)
  next
    case (Responded r)
    show thesis
    proof (cases "response_json r")
      case (Inl e)
      with inv Responded show thesis
        by (intro exception[of e w]) (simp add: execute_operation_def Let_def)
    next
      case (Inr result_data)
      show thesis
      proof (cases "result_entry_of nm (status_code r) result_data
                      (clock env (outside w) - clock env (outside (world st)))")
        case (Inl e)
        with inv Responded \<open>response_json r = Inr result_data\<close> show thesis
          by (intro exception[of e w]) (simp add: execute_operation_def Let_def)
      next
        case (Inr entry)
        with inv Responded \<open>response_json r = Inr result_data\<close> show thesis
          by (intro response[of "status_code r" result_data
                "clock env (outside w) - clock env (outside (world st))" entry w])
             (simp_all add: execute_operation_def Let_def)
      qed
    qed
  qed
qed

lemma execute_operation_complete:
  "\<exists>started finished.
     events (snd (execute_operation env T i nm ep pl st)) = events st @ [started, finished]
     \<and> field started ''type'' = JStr ''operation_start''
     \<and> field finished ''type'' = JStr ''operation_complete''
     \<and> field finished ''operation'' = JStr nm
     \<and> field finished ''success'' = field (fst (execute_operation env T i nm ep pl st)) ''success''
     \<and> field finished ''execution_time_ms'' =
         field (fst (execute_operation env T i nm ep pl st)) ''execution_time_ms''"
proof -
  let ?start = "JObj [(''type'', JStr ''operation_start''), (''operation'', JStr nm),
                      (''current'', JInt i), (''total'', JInt T),
                      (''message'', JStr (''Executing '' @ nm @ ''...''))]"
  have st: "field ?start ''type'' = JStr ''operation_start''"
    by (simp add: field_def dict_get_def)
  show ?thesis
  proof (cases rule: execute_operation_cases[of env T i nm ep pl st])
    case (exception e w)
    obtain f where f:
      "events (snd (execute_operation env T i nm ep pl st)) =
         events ((emit ?start st)\<lparr>world := w\<rparr>) @ [f]"
      "field f ''type'' = JStr ''operation_complete''"
      "field f ''operation'' = JStr nm"
      "field f ''success'' = field (fst (execute_operation env T i nm ep pl st)) ''success''"
      "field f ''execution_time_ms'' =
         field (fst (execute_operation env T i nm ep pl st)) ''execution_time_ms''"
      unfolding exception
      using record_exception_complete[of env T nm "clock env (outside (world st))" e
          "(emit ?start st)\<lparr>world := w\<rparr>"]
      by blast
    have "events (snd (execute_operation env T i nm ep pl st)) = events st @ [?start, f]"
      using f(1) by (simp add: emit_def)
    with st f(2-5) show ?thesis by blast
  next
    case (response s d t r w)
    obtain f where f:
      "events (snd (execute_operation env T i nm ep pl st)) =
         events ((emit ?start st)\<lparr>world := w\<rparr>) @ [f]"
      "field f ''type'' = JStr ''operation_complete''"
      "field f ''operation'' = JStr nm"
      "field f ''success'' = field (fst (execute_operation env T i nm ep pl st)) ''success''"
      "field f ''execution_time_ms'' =
         field (fst (execute_operation env T i nm ep pl st)) ''execution_time_ms''"
      unfolding response(2)
      using record_response_complete[OF response(1), of env T "(emit ?start st)\<lparr>world := w\<rparr>"]
      by blast
    have "events (snd (execute_operation env T i nm ep pl st)) = events st @ [?start, f]"
      using f(1) by (simp add: emit_def)
    with st f(2-5) show ?thesis by blast
  qed
qed


lemma execute_operation_raised:
  "fst (invoke env nm ep pl (world st)) = Raised e \<Longrightarrow>
   execute_operation env T i nm ep pl st =
     record_exception env T nm (clock env (outside (world st))) e
       ((emit (JObj [(''type'', JStr ''operation_start''), (''operation'', JStr nm),
                     (''current'', JInt i), (''total'', JInt T),
                     (''message'', JStr (''Executing '' @ nm @ ''...''))]) st)
          \<lparr>world := snd (invoke env nm ep pl (world st))\<rparr>)"
  by (cases "invoke env nm ep pl (world st)")
     (simp add: execute_operation_def Let_def emit_def)

lemma execute_operation_rejected:
  "fst (invoke env nm ep pl (world st)) = Responded r \<Longrightarrow>
   body r = JsonText (JObj d) \<Longrightarrow>
   status_code r \<noteq> 200 \<Longrightarrow>
   execute_operation env T i nm ep pl st =
     record_response env T nm (status_code r)
       (clock env (outside (snd (invoke env nm ep pl (world st)))) - clock env (outside (world st)))
       (JObj [(''operation'', JStr nm), (''success'', JBool False), (''result'', JNull),
              (''execution_time_ms'', JMillis
                 (clock env (outside (snd (invoke env nm ep pl (world st)))) -
                  clock env (outside (world st)))),
              (''error'', dict_get_default d ''error'' (JStr (''HTTP '' @ str_int (status_code r))))])
       ((emit (JObj [(''type'', JStr ''operation_start''), (''operation'', JStr nm),
                     (''current'', JInt i), (''total'', JInt T),
                     (''message'', JStr (''Executing '' @ nm @ ''...''))]) st)
          \<lparr>world := snd (invoke env nm ep pl (world st))\<rparr>)"
  by (cases "invoke env nm ep pl (world st)")
     (simp add: execute_operation_def Let_def emit_def response_json_def result_entry_of_def)

text \<open>
  What the two branches do. Each operation appends its result and emits
  \<open>operation_complete\<close>, the last event of the step, with the entry's success flag and
  elapsed time. When the request raised, the event also carries the error: in full under
  \<open>error\<close>, and cut to 50 characters in \<open>message\<close>; the entry keeps it in full. When the
  endpoint answered a JSON object with a status other than 200, the entry keeps the answer's
  \<open>error\<close> (or \<open>HTTP <status>\<close>).
\<close>

lemma operation_complete_event:
  "\<exists>started finished.
     results (snd (execute_operation env T i nm ep pl st)) =
       results st @ [fst (execute_operation env T i nm ep pl st)]
   \<and> events (snd (execute_operation env T i nm ep pl st)) = events st @ [started, finished]
   \<and> field finished ''type'' = JStr ''operation_complete''
   \<and> field finished ''operation'' = JStr nm
   \<and> field finished ''success'' = field (fst (execute_operation env T i nm ep pl st)) ''success''
   \<and> field finished ''execution_time_ms'' =
       field (fst (execute_operation env T i nm ep pl st)) ''execution_time_ms''
   \<and> (\<forall>e. fst (invoke env nm ep pl (world st)) = Raised e \<longrightarrow>
         field (fst (execute_operation env T i nm ep pl st)) ''success'' = JBool False
       \<and> field (fst (execute_operation env T i nm ep pl st)) ''error'' = JStr e
       \<and> field finished ''error'' = JStr e
       \<and> field finished ''message'' = JStr (cross_mark @ '' '' @ nm @ '' failed: '' @ take 50 e))
   \<and> (\<forall>r d. fst (invoke env nm ep pl (world st)) = Responded r \<and> body r = JsonText (JObj d) \<and>
            status_code r \<noteq> 200 \<longrightarrow>
         field (fst (execute_operation env T i nm ep pl st)) ''success'' = JBool False
       \<and> field (fst (execute_operation env T i nm ep pl st)) ''error'' =
           dict_get_default d ''error'' (JStr (''HTTP '' @ str_int (status_code r))))"
proof -
  let ?X = "execute_operation env T i nm ep pl st"
  obtain started finished where sf:
    "events (snd ?X) = events st @ [started, finished]"
    "field finished ''type'' = JStr ''operation_complete''"
    "field finished ''operation'' = JStr nm"
    "field finished ''success'' = field (fst ?X) ''success''"
    "field finished ''execution_time_ms'' = field (fst ?X) ''execution_time_ms''"
    using execute_operation_complete[of env T i nm ep pl st] by blast
  have raised: "field (fst ?X) ''success'' = JBool False
       \<and> field (fst ?X) ''error'' = JStr e
       \<and> field finished ''error'' = JStr e
       \<and> field finished ''message'' = JStr (cross_mark @ '' '' @ nm @ '' failed: '' @ take 50 e)"
    if h: "fst (invoke env nm ep pl (world st)) = Raised e" for e
  proof -
    note eq = execute_operation_raised[OF h, of T i]
    have "events (snd ?X) = events st @ [started, finished]" by (rule sf(1))
    then have "finished = JObj [(''type'', JStr ''operation_complete''),
            (''operation'', JStr nm),
            (''success'', JBool False),
            (''current'', JInt (completed st + 1)),
            (''total'', JInt T),
            (''execution_time_ms'', JMillis (clock env (outside (snd (invoke env nm ep pl (world st)))) -
                clock env (outside (world st)))),
            (''error'', JStr e),
            (''message'', JStr (cross_mark @ '' '' @ nm @ '' failed: '' @ take 50 e))]"
      unfolding eq record_exception_events by (simp add: emit_def)
    then show ?thesis
      unfolding eq record_exception_fst by (simp add: field_def dict_get_def)
  qed
  have rejected: "field (fst ?X) ''success'' = JBool False
       \<and> field (fst ?X) ''error'' =
           dict_get_default d ''error'' (JStr (''HTTP '' @ str_int (status_code r)))"
    if h: "fst (invoke env nm ep pl (world st)) = Responded r" "body r = JsonText (JObj d)"
          "status_code r \<noteq> 200" for r d
    unfolding execute_operation_rejected[OF h, of T i] record_response_fst
    by (simp add: field_def dict_get_def)
  show ?thesis
    using sf raised rejected execute_operation_results[of env T i nm ep pl st] by blast
qed


lemma operation_complete_event_at_scenarios:
  "fst (invoke (scenario_env True) ''find'' ''/api/fault'' (JObj []) (world scenario_start)) =
     Raised ''HTTPConnectionPool(host=localhost, port=5000): Max retries exceeded with url: /api/fault''
   \<and> field (last (events (snd (execute_operation (scenario_env True) 2 1 ''find'' ''/api/fault'' (JObj [])
          scenario_start)))) ''error'' =
       JStr ''HTTPConnectionPool(host=localhost, port=5000): Max retries exceeded with url: /api/fault''
   \<and> field (last (events (snd (execute_operation (scenario_env True) 2 1 ''find'' ''/api/fault'' (JObj [])
          scenario_start)))) ''message'' =
       JStr (cross_mark @ '' find failed: HTTPConnectionPool(host=localhost, port=5000): Max'')
   \<and> fst (invoke (scenario_env True) ''save'' ''/api/reject'' (JObj []) (world scenario_start)) =
       Responded (error_response ''E11000 duplicate key error'')
   \<and> field (fst (execute_operation (scenario_env True) 2 2 ''save'' ''/api/reject'' (JObj [])
          scenario_start)) ''success'' = JBool False
   \<and> field (fst (execute_operation (scenario_env True) 2 2 ''save'' ''/api/reject'' (JObj [])
          scenario_start)) ''error'' = JStr ''E11000 duplicate key error''"
proof -
  let ?X1 = "execute_operation (scenario_env True) 2 1 ''find'' ''/api/fault'' (JObj []) scenario_start"
  let ?X2 = "execute_operation (scenario_env True) 2 2 ''save'' ''/api/reject'' (JObj []) scenario_start"
  have h1: "fst (invoke (scenario_env True) ''find'' ''/api/fault'' (JObj []) (world scenario_start)) =
     Raised ''HTTPConnectionPool(host=localhost, port=5000): Max retries exceeded with url: /api/fault''"
    by (simp add: invoke_def scenario_env_def base_url_def scenario_start_def)
  have h2: "fst (invoke (scenario_env True) ''save'' ''/api/reject'' (JObj []) (world scenario_start)) =
       Responded (error_response ''E11000 duplicate key error'')"
    by (simp add: invoke_def scenario_env_def base_url_def scenario_start_def)
  have b2: "body (error_response ''E11000 duplicate key error'') =
              JsonText (JObj [(''success'', JBool False), (''error'', JStr ''E11000 duplicate key error'')])"
           "status_code (error_response ''E11000 duplicate key error'') \<noteq> 200"
    by (simp_all add: error_response_def jsonify_def)
  obtain s1 f1 where e1: "events (snd ?X1) = events scenario_start @ [s1, f1]"
    and r1: "\<forall>e. fst (invoke (scenario_env True) ''find'' ''/api/fault'' (JObj []) (world scenario_start)) =
               Raised e \<longrightarrow>
             field (fst ?X1) ''success'' = JBool False \<and> field (fst ?X1) ''error'' = JStr e \<and>
             field f1 ''error'' = JStr e \<and>
             field f1 ''message'' = JStr (cross_mark @ '' '' @ ''find'' @ '' failed: '' @ take 50 e)"
    using operation_complete_event[where env = "scenario_env True" and T = 2 and i = 1
        and nm = "''find''" and ep = "''/api/fault''" and pl = "JObj []" and st = scenario_start]
    by blast
  obtain s2 f2 where e2: "events (snd ?X2) = events scenario_start @ [s2, f2]"
    and r2: "\<forall>r d. fst (invoke (scenario_env True) ''save'' ''/api/reject'' (JObj []) (world scenario_start)) =
               Responded r \<and> body r = JsonText (JObj d) \<and> status_code r \<noteq> 200 \<longrightarrow>
             field (fst ?X2) ''success'' = JBool False \<and>
             field (fst ?X2) ''error'' =
               dict_get_default d ''error'' (JStr (''HTTP '' @ str_int (status_code r)))"
    using operation_complete_event[where env = "scenario_env True" and T = 2 and i = 2
        and nm = "''save''" and ep = "''/api/reject''" and pl = "JObj []" and st = scenario_start]
    by blast
  have l1: "last (events (snd ?X1)) = f1" using e1 by simp
  have c1: "field f1 ''error'' =
       JStr ''HTTPConnectionPool(host=localhost, port=5000): Max retries exceeded with url: /api/fault''
     \<and> field f1 ''message'' =
       JStr (cross_mark @ '' find failed: HTTPConnectionPool(host=localhost, port=5000): Max'')"
    using r1 h1 by simp
  have c2: "field (fst ?X2) ''success'' = JBool False \<and>
            field (fst ?X2) ''error'' = JStr ''E11000 duplicate key error''"
    using r2 h2 b2 by (simp add: dict_get_default_def)
  show ?thesis
    using h1 h2 c1 c2 unfolding l1 by blast
qed

text \<open>
  An operation the endpoint rejects with status 500 is a failure in its result entry, with
  its error, yet its \<open>operation_complete\<close> event has no \<open>error\<close> key and a message that only
  says the operation completed.
\<close>

lemma rejected_operation_event_has_no_error:
  "field (fst (execute_operation (scenario_env True) 2 2 ''save'' ''/api/reject'' (JObj [])
          scenario_start)) ''success'' = JBool False
   \<and> field (fst (execute_operation (scenario_env True) 2 2 ''save'' ''/api/reject'' (JObj [])
          scenario_start)) ''error'' = JStr ''E11000 duplicate key error''
   \<and> last (events (snd (execute_operation (scenario_env True) 2 2 ''save'' ''/api/reject'' (JObj [])
          scenario_start))) =
       JObj [(''type'', JStr ''operation_complete''),
             (''operation'', JStr ''save''),
             (''success'', JBool False),
             (''current'', JInt 1),
             (''total'', JInt 2),
             (''execution_time_ms'', JMillis 1),
             (''message'', JStr (cross_mark @ '' save completed in 0.0ms''))]
   \<and> \<not> has_key (last (events (snd (execute_operation (scenario_env True) 2 2 ''save'' ''/api/reject''
          (JObj []) scenario_start)))) ''error''"
  by (simp add: execute_operation_def Let_def emit_def record_response_def response_json_def
      result_entry_of_def invoke_def base_url_def scenario_env_def scenario_start_def
      scenario_world_def error_response_def jsonify_def field_def dict_get_def
      dict_get_default_def has_key_def str_int_def digit_char_def)

text \<open>
  Claim C8 at its failing input. The claim has every failed operation's
  \<open>operation_complete\<close> event carry a truncated error message. When the request raises
  (here at \<open>/api/fault\<close>), the event does: the error in full under \<open>error\<close>, and cut to 50
  characters in \<open>message\<close>. When the endpoint answers 500 with an error (here at
  \<open>/api/reject\<close>), the result entry is a failure and holds the error, but the event has no
  \<open>error\<close> key and its message names no error.
\<close>

theorem failed_answer_event_omits_error:
  "field (fst (execute_operation (scenario_env True) 2 2 ''save'' ''/api/reject'' (JObj [])
          scenario_start)) ''success'' = JBool False
   \<and> field (fst (execute_operation (scenario_env True) 2 2 ''save'' ''/api/reject'' (JObj [])
          scenario_start)) ''error'' = JStr ''E11000 duplicate key error''
   \<and> last (events (snd (execute_operation (scenario_env True) 2 2 ''save'' ''/api/reject'' (JObj [])
          scenario_start))) =
       JObj [(''type'', JStr ''operation_complete''),
             (''operation'', JStr ''save''),
             (''success'', JBool False),
             (''current'', JInt 1),
             (''total'', JInt 2),
             (''execution_time_ms'', JMillis 1),
             (''message'', JStr (cross_mark @ '' save completed in 0.0ms''))]
   \<and> \<not> has_key (last (events (snd (execute_operation (scenario_env True) 2 2 ''save'' ''/api/reject''
          (JObj []) scenario_start)))) ''error''
   \<and> field (last (events (snd (execute_operation (scenario_env True) 2 1 ''find'' ''/api/fault'' (JObj [])
          scenario_start)))) ''error'' =
       JStr ''HTTPConnectionPool(host=localhost, port=5000): Max retries exceeded with url: /api/fault''
   \<and> field (last (events (snd (execute_operation (scenario_env True) 2 1 ''find'' ''/api/fault'' (JObj [])
          scenario_start)))) ''message'' =
       JStr (cross_mark @ '' find failed: HTTPConnectionPool(host=localhost, port=5000): Max'')"
  using rejected_operation_event_has_no_error operation_complete_event_at_scenarios
  by blast

end
